theory Spec2Isabelle
  imports Complex_Main "HOL-Library.Monad_Syntax"
begin

section \<open>Arrays, the numerical library and the sampling engine\<close>

text \<open>
  An array is its shape and its elements in row-major order. Element values are
  idealised as reals; no theorem below uses a law of real arithmetic on array elements
  beyond evaluating constants.
\<close>

datatype tensor = Tensor (shape: "nat list") (elems: "real list")

definition scalar :: "real \<Rightarrow> tensor" where
  "scalar x = Tensor [] [x]"

text \<open>A shape given as Python ints; a negative dimension raises.\<close>

definition to_dims :: "int list \<Rightarrow> nat list option" where
  "to_dims ds = (if list_all (\<lambda>d. 0 \<le> d) ds then Some (map nat ds) else None)"

definition jnp_zeros :: "int list \<Rightarrow> tensor option" where
  "jnp_zeros ds = map_option (\<lambda>s. Tensor s (replicate (prod_list s) 0)) (to_dims ds)"

definition jnp_ones :: "int list \<Rightarrow> tensor option" where
  "jnp_ones ds = map_option (\<lambda>s. Tensor s (replicate (prod_list s) 1)) (to_dims ds)"

text \<open>\<^verbatim>\<open>c * a\<close> for a Python number \<open>c\<close>: the shape is kept.\<close>

definition scalar_times :: "real \<Rightarrow> tensor \<Rightarrow> tensor" where
  "scalar_times c a = Tensor (shape a) (map (\<lambda>x. c * x) (elems a))"

text \<open>\<^verbatim>\<open>a.squeeze()\<close> drops every axis of length one.\<close>

definition squeeze :: "tensor \<Rightarrow> tensor" where
  "squeeze a = Tensor (filter (\<lambda>d. d \<noteq> 1) (shape a)) (elems a)"

text \<open>\<^verbatim>\<open>a.shape[0]\<close> raises IndexError on a 0-dimensional array.\<close>

definition shape0 :: "tensor \<Rightarrow> nat option" where
  "shape0 a = (case shape a of [] \<Rightarrow> None | d # _ \<Rightarrow> Some d)"

text \<open>
  \<^verbatim>\<open>len(onp.unique(a[:, -1]))\<close>: the number of distinct values with the last index
  along axis 1. Indexing needs two axes and a non-empty axis 1.
\<close>

definition last_column :: "tensor \<Rightarrow> real list option" where
  "last_column a =
     (case shape a of
        n # m # rest \<Rightarrow>
          if m = 0 then None
          else Some (map (\<lambda>i. elems a ! i)
                 (filter (\<lambda>i. (i div prod_list rest) mod m = m - 1)
                    [0..<prod_list (shape a)]))
      | _ \<Rightarrow> None)"

definition num_unique_last_column :: "tensor \<Rightarrow> int option" where
  "num_unique_last_column a = map_option (\<lambda>xs. int (length (remdups xs))) (last_column a)"

text \<open>Shape broadcasting (right-aligned; two lengths agree when equal or when one is 1).\<close>

fun broadcast_rev :: "nat list \<Rightarrow> nat list \<Rightarrow> nat list option" where
  "broadcast_rev [] ys = Some ys"
| "broadcast_rev (x # xs) [] = Some (x # xs)"
| "broadcast_rev (x # xs) (y # ys) =
     (if x = y \<or> x = 1 \<or> y = 1
      then map_option (\<lambda>r. (if x = 1 then y else x) # r) (broadcast_rev xs ys)
      else None)"

definition broadcast_shapes :: "nat list \<Rightarrow> nat list \<Rightarrow> nat list option" where
  "broadcast_shapes a b = map_option rev (broadcast_rev (rev a) (rev b))"

text \<open>
  The arithmetic of the array library (\<^verbatim>\<open>jax.numpy\<close>) is not part of the repository.
  It is a parameter: every theorem holds for whatever these operations compute,
  floating-point rounding included. \<open>None\<close> is a raised exception.
\<close>

record numlib =
  jnp_matmul :: "tensor \<Rightarrow> tensor \<Rightarrow> tensor option"
  jnp_add :: "tensor \<Rightarrow> tensor \<Rightarrow> tensor option"
  jnp_subtract :: "tensor \<Rightarrow> tensor \<Rightarrow> tensor option"
  jnp_multiply :: "tensor \<Rightarrow> tensor \<Rightarrow> tensor option"
  jnp_tanh :: "tensor \<Rightarrow> tensor"
  jnp_transpose :: "tensor \<Rightarrow> tensor"
  linalg_inv :: "tensor \<Rightarrow> tensor option"

text \<open>\<^verbatim>\<open>jnp.array(noiseless, int)\<close>\<close>

definition jnp_array_bool :: "bool \<Rightarrow> tensor" where
  "jnp_array_bool b = scalar (if b then 1 else 0)"

type_synonym params = "string \<rightharpoonup> tensor"

subsection \<open>Distributions and sample statements\<close>

datatype dist =
    Normal tensor tensor
  | LogNormal tensor tensor
  | ToEvent nat dist

text \<open>Batch shape and event shape of a distribution; \<open>None\<close> where its construction raises.\<close>

fun dist_shapes :: "dist \<Rightarrow> (nat list \<times> nat list) option" where
  "dist_shapes (Normal loc scale) =
     map_option (\<lambda>b. (b, [])) (broadcast_shapes (shape loc) (shape scale))"
| "dist_shapes (LogNormal loc scale) =
     map_option (\<lambda>b. (b, [])) (broadcast_shapes (shape loc) (shape scale))"
| "dist_shapes (ToEvent k d) =
     (case dist_shapes d of
        None \<Rightarrow> None
      | Some (b, e) \<Rightarrow>
          if k \<le> length b
          then Some (take (length b - k) b, drop (length b - k) b @ e)
          else None)"

text \<open>
  A trace records the statements a model executes: a drawn site with its distribution and
  value, a deterministic site, and the multivariate-normal likelihood statement
  \<^verbatim>\<open>numpyro.sample(name, dist.MultivariateNormal(loc, covariance_matrix), obs)\<close>.
\<close>

datatype site =
    Sample string dist tensor
  | Deterministic string tensor
  | SampleMVN string tensor tensor "tensor option"

text \<open>
  The inference engine is external: it chooses the value of every component of every
  drawn site. The value returned by a sample statement has the shape of its distribution.
\<close>

type_synonym engine = "string \<Rightarrow> nat \<Rightarrow> real"

text \<open>
  A plate of size \<open>n\<close> at axis \<open>-ax\<close> of the batch shape (\<open>ax = 1\<close> is the
  rightmost axis) broadcasts the batch shape against \<open>(n, 1, ..., 1)\<close>.
\<close>

fun plates_expand :: "(nat \<times> nat) list \<Rightarrow> nat list \<Rightarrow> nat list option" where
  "plates_expand [] b = Some b"
| "plates_expand ((n, ax) # ps) b =
     (case broadcast_shapes (n # replicate (ax - 1) 1) b of
        None \<Rightarrow> None
      | Some b' \<Rightarrow> plates_expand ps b')"

definition numpyro_sample ::
    "engine \<Rightarrow> (nat \<times> nat) list \<Rightarrow> string \<Rightarrow> dist \<Rightarrow> (tensor \<times> site) option" where
  "numpyro_sample eng plates name d = do {
     (b, e) \<leftarrow> dist_shapes d;
     b' \<leftarrow> plates_expand plates b;
     let v = Tensor (b' @ e) (map (eng name) [0..<prod_list (b' @ e)]);
     Some (v, Sample name d v)
   }"

type_synonym prior = "engine \<Rightarrow> (params \<times> site list) option"

section \<open>Deep kernel learning (dkl.py)\<close>

subsection \<open>The default network and its prior\<close>

definition sample_weights :: "engine \<Rightarrow> string \<Rightarrow> int \<Rightarrow> int \<Rightarrow> (tensor \<times> site) option" where
  "sample_weights eng name in_channels out_channels = do {
     loc \<leftarrow> jnp_zeros [in_channels, out_channels];
     scale \<leftarrow> jnp_ones [in_channels, out_channels];
     numpyro_sample eng [] name (Normal loc scale)
   }"

definition sample_biases :: "engine \<Rightarrow> string \<Rightarrow> int \<Rightarrow> (tensor \<times> site) option" where
  "sample_biases eng name channels = do {
     loc \<leftarrow> jnp_zeros [channels];
     scale \<leftarrow> jnp_ones [channels];
     numpyro_sample eng [] name (Normal loc scale)
   }"

definition bnn :: "numlib \<Rightarrow> tensor \<Rightarrow> params \<Rightarrow> tensor option" where
  "bnn J X params = do {
     w1 \<leftarrow> params ''w1'';
     a1 \<leftarrow> jnp_matmul J X w1;
     b1 \<leftarrow> params ''b1'';
     s1 \<leftarrow> jnp_add J a1 b1;
     let h1 = jnp_tanh J s1;
     w2 \<leftarrow> params ''w2'';
     a2 \<leftarrow> jnp_matmul J h1 w2;
     b2 \<leftarrow> params ''b2'';
     s2 \<leftarrow> jnp_add J a2 b2;
     let h2 = jnp_tanh J s2;
     w3 \<leftarrow> params ''w3'';
     a3 \<leftarrow> jnp_matmul J h2 w3;
     b3 \<leftarrow> params ''b3'';
     jnp_add J a3 b3
   }"

definition bnn_prior :: "int \<Rightarrow> int \<Rightarrow> prior" where
  "bnn_prior input_dim zdim = (\<lambda>eng.
     let hdim = [64, 32] in do {
       (w1, s1) \<leftarrow> sample_weights eng ''w1'' input_dim (hdim ! 0);
       (b1, s2) \<leftarrow> sample_biases eng ''b1'' (hdim ! 0);
       (w2, s3) \<leftarrow> sample_weights eng ''w2'' (hdim ! 0) (hdim ! 1);
       (b2, s4) \<leftarrow> sample_biases eng ''b2'' (hdim ! 1);
       (w3, s5) \<leftarrow> sample_weights eng ''w3'' (hdim ! 1) zdim;
       (b3, s6) \<leftarrow> sample_biases eng ''b3'' zdim;
       Some ([''w1'' \<mapsto> w1, ''b1'' \<mapsto> b1, ''w2'' \<mapsto> w2, ''b2'' \<mapsto> b2,
              ''w3'' \<mapsto> w3, ''b3'' \<mapsto> b3],
             [s1, s2, s3, s4, s5, s6])
     })"

text \<open>The network equation in the words of the specification.\<close>

definition mlp_forward ::
    "numlib \<Rightarrow> tensor \<Rightarrow> tensor \<Rightarrow> tensor \<Rightarrow> tensor \<Rightarrow> tensor \<Rightarrow> tensor \<Rightarrow> tensor \<Rightarrow> tensor option" where
  "mlp_forward J X w1 b1 w2 b2 w3 b3 =
     jnp_matmul J X w1 \<bind> (\<lambda>a1. jnp_add J a1 b1) \<bind>
     (\<lambda>s1. jnp_matmul J (jnp_tanh J s1) w2) \<bind> (\<lambda>a2. jnp_add J a2 b2) \<bind>
     (\<lambda>s2. jnp_matmul J (jnp_tanh J s2) w3) \<bind> (\<lambda>a3. jnp_add J a3 b3)"


subsection \<open>The DKL object\<close>

text \<open>
  A kernel function of the kernel library (\<^verbatim>\<open>gpax/kernels.py\<close>, not among the sources) is
  called as \<^verbatim>\<open>k(X, Z, params, noise, jitter)\<close>; an argument the caller leaves out
  is \<open>None\<close>. \<^verbatim>\<open>get_kernel\<close> maps a kernel name to its function and is a parameter.
\<close>

type_synonym kernel_fn =
  "tensor \<Rightarrow> tensor \<Rightarrow> params \<Rightarrow> tensor option \<Rightarrow> real option \<Rightarrow> tensor option"

type_synonym mean_fn = "tensor \<Rightarrow> params option \<Rightarrow> tensor option"

type_synonym latent_prior = "engine \<Rightarrow> tensor \<Rightarrow> (tensor \<times> site list) option"

text \<open>
  The stored training arrays are objects with identity: a field holds the address of an
  array in the store, or \<open>None\<close> before the model is fitted.
\<close>

type_synonym store = "tensor list"

definition deref :: "store \<Rightarrow> nat option \<Rightarrow> tensor option" where
  "deref h r = (case r of None \<Rightarrow> None | Some a \<Rightarrow> if a < length h then Some (h ! a) else None)"

record DKL =
  dkl_kernel :: string
  dkl_kernel_prior :: "prior option"
  dkl_X_train :: "nat option"
  dkl_y_train :: "nat option"
  dkl_bnn :: "tensor \<Rightarrow> params \<Rightarrow> tensor option"
  dkl_bnn_prior :: prior
  dkl_kernel_dim :: int
  dkl_latent_prior :: "latent_prior option"
  dkl_gp_mean_fn :: "mean_fn option"
  dkl_gp_mean_fn_prior :: "prior option"

datatype error = ValueError string | Exception string

text \<open>
  The attributes that the base class \<^verbatim>\<open>ExactGP\<close> (\<^verbatim>\<open>gpax/gp.py\<close>, not among the sources)
  provides to a DKL object. Its initialiser is a parameter of \<open>DKL_init\<close>, applied to the
  three positional arguments of the call. The attribute \<^verbatim>\<open>mean_fn\<close> of the base class is not
  read by DKL; it is kept here as \<open>gp_mean_fn_arg\<close> because the call passes a prior callable
  positionally and the base class decides which attribute receives it.
\<close>

record ExactGP_dkl =
  gp_kernel :: string
  gp_mean_fn_arg :: "prior option"
  gp_kernel_prior :: "prior option"
  gp_X_train :: "nat option"
  gp_y_train :: "nat option"

definition DKL_init ::
    "numlib \<Rightarrow> (int \<Rightarrow> string \<Rightarrow> prior option \<Rightarrow> error + ExactGP_dkl) \<Rightarrow>
     int \<Rightarrow> int \<Rightarrow> string \<Rightarrow> prior option \<Rightarrow> mean_fn option \<Rightarrow> prior option \<Rightarrow>
     (tensor \<Rightarrow> params \<Rightarrow> tensor option) option \<Rightarrow> prior option \<Rightarrow> latent_prior option \<Rightarrow>
     error + DKL" where
  "DKL_init J ExactGP_init input_dim z_dim kernel_name kernel_prior gp_mean_fn gp_mean_fn_prior
       bnn_fn bnn_fn_prior latent_prior =
     (case ExactGP_init input_dim kernel_name kernel_prior of
        Inl e \<Rightarrow> Inl e
      | Inr base \<Rightarrow> Inr \<lparr>
          dkl_kernel = gp_kernel base,
          dkl_kernel_prior = gp_kernel_prior base,
          dkl_X_train = gp_X_train base,
          dkl_y_train = gp_y_train base,
          dkl_bnn = (case bnn_fn of Some f \<Rightarrow> f | None \<Rightarrow> bnn J),
          dkl_bnn_prior = (case bnn_fn_prior of Some p \<Rightarrow> p | None \<Rightarrow> bnn_prior input_dim z_dim),
          dkl_kernel_dim = z_dim,
          dkl_latent_prior = latent_prior,
          dkl_gp_mean_fn = gp_mean_fn,
          dkl_gp_mean_fn_prior = gp_mean_fn_prior \<rparr>)"

text \<open>
  Adding the prior mean function, as both models do it (dkl.py lines 51-55, mtgp.py lines
  125-129):
  \<^verbatim>\<open>if mean_fn is not None: args = [x]; if mean_fn_prior is not None: args += [mean_fn_prior()];
  f_loc += mean_fn(*args).squeeze()\<close>.
\<close>

definition prior_mean ::
    "numlib \<Rightarrow> engine \<Rightarrow> (tensor \<Rightarrow> 'p option \<Rightarrow> tensor option) option \<Rightarrow>
     (engine \<Rightarrow> ('p \<times> site list) option) option \<Rightarrow> tensor \<Rightarrow> tensor \<Rightarrow>
     (tensor \<times> site list) option" where
  "prior_mean J eng mean_fn mean_fn_prior x f_loc =
     (case mean_fn of
        None \<Rightarrow> Some (f_loc, [])
      | Some mean \<Rightarrow> do {
          (arg, tr) \<leftarrow>
            (case mean_fn_prior of
               None \<Rightarrow> Some (None, [])
             | Some pr \<Rightarrow> do { (p, tr) \<leftarrow> pr eng; Some (Some p, tr) });
          m \<leftarrow> mean x arg;
          f \<leftarrow> jnp_add J f_loc (squeeze m);
          Some (f, tr)
        })"

text \<open>
  \<^verbatim>\<open>DKL.model\<close>. The inherited \<^verbatim>\<open>_sample_kernel_params\<close> belongs to the base class and is
  the parameter \<open>default_kernel_prior\<close>. The result is the trace of the statements executed.
\<close>

definition DKL_model ::
    "numlib \<Rightarrow> (string \<Rightarrow> kernel_fn option) \<Rightarrow> (DKL \<Rightarrow> prior) \<Rightarrow> engine \<Rightarrow>
     DKL \<Rightarrow> tensor \<Rightarrow> tensor \<Rightarrow> site list option" where
  "DKL_model J get_kernel default_kernel_prior eng self X y = do {
     (bnn_params, tr_bnn) \<leftarrow> dkl_bnn_prior self eng;
     z \<leftarrow> dkl_bnn self X bnn_params;
     n \<leftarrow> shape0 z;
     f_loc \<leftarrow> jnp_zeros [int n];
     (f_loc, tr_mean) \<leftarrow>
       prior_mean J eng (dkl_gp_mean_fn self) (dkl_gp_mean_fn_prior self) z f_loc;
     (z, tr_latent) \<leftarrow>
       (case dkl_latent_prior self of
          None \<Rightarrow> Some (z, [])
        | Some lp \<Rightarrow> lp eng z);
     (kernel_params, tr_kernel) \<leftarrow>
       (case dkl_kernel_prior self of
          Some kp \<Rightarrow> kp eng
        | None \<Rightarrow> default_kernel_prior self eng);
     (noise, s_noise) \<leftarrow> numpyro_sample eng [] ''noise'' (LogNormal (scalar 0) (scalar 1));
     kfn \<leftarrow> get_kernel (dkl_kernel self);
     k \<leftarrow> kfn z z kernel_params (Some noise) None;
     Some (tr_bnn @ tr_mean @ tr_latent @ tr_kernel @
           [s_noise, SampleMVN ''y'' f_loc k (Some y)])
   }"

text \<open>
  \<^verbatim>\<open>r -= v\<close> on an immutable array: the difference is a new array and the name is
  rebound to it; the array the name was bound to is not written.
\<close>

definition isub :: "numlib \<Rightarrow> store \<Rightarrow> nat option \<Rightarrow> tensor \<Rightarrow> (store \<times> nat option) option" where
  "isub J h r v = do {
     a \<leftarrow> deref h r;
     d \<leftarrow> jnp_subtract J a v;
     Some (h @ [d], Some (length h))
   }"

text \<open>The argument list \<^verbatim>\<open>[z, params] if self.gp_mean_fn_prior else [z]\<close> (lines 95, 106).\<close>

definition mean_args :: "DKL \<Rightarrow> params \<Rightarrow> params option" where
  "mean_args self params = (if dkl_gp_mean_fn_prior self \<noteq> None then Some params else None)"

text \<open>\<^verbatim>\<open>DKL.get_mvn_posterior\<close>: the store after the call and the pair (mean, cov).\<close>

definition get_mvn_posterior ::
    "numlib \<Rightarrow> (string \<Rightarrow> kernel_fn option) \<Rightarrow> DKL \<Rightarrow> store \<Rightarrow> tensor \<Rightarrow> params \<Rightarrow> bool \<Rightarrow>
     store \<times> (tensor \<times> tensor) option" where
  "get_mvn_posterior J get_kernel self h X_new params noiseless =
     (case do {
             noise \<leftarrow> params ''noise'';
             c \<leftarrow> jnp_subtract J (scalar 1) (jnp_array_bool noiseless);
             noise_p \<leftarrow> jnp_multiply J noise c;
             X_tr \<leftarrow> deref h (dkl_X_train self);
             z_train \<leftarrow> dkl_bnn self X_tr params;
             z_test \<leftarrow> dkl_bnn self X_new params;
             Some (noise, noise_p, z_train, z_test)
           } of
        None \<Rightarrow> (h, None)
      | Some (noise, noise_p, z_train, z_test) \<Rightarrow>
          (case (case dkl_gp_mean_fn self of
                   None \<Rightarrow> Some (h, dkl_y_train self)
                 | Some gp_mean \<Rightarrow> do {
                     m \<leftarrow> gp_mean z_train (mean_args self params);
                     isub J h (dkl_y_train self) (squeeze m)
                   }) of
             None \<Rightarrow> (h, None)
           | Some (h', y_residual) \<Rightarrow>
               (h', do {
                  kfn \<leftarrow> get_kernel (dkl_kernel self);
                  k_pp \<leftarrow> kfn z_test z_test params (Some noise_p) None;
                  k_pX \<leftarrow> kfn z_test z_train params None (Some 0);
                  k_XX \<leftarrow> kfn z_train z_train params (Some noise) None;
                  K_xx_inv \<leftarrow> linalg_inv J k_XX;
                  t1 \<leftarrow> jnp_matmul J K_xx_inv (jnp_transpose J k_pX);
                  t2 \<leftarrow> jnp_matmul J k_pX t1;
                  cov \<leftarrow> jnp_subtract J k_pp t2;
                  y_res \<leftarrow> deref h' y_residual;
                  t3 \<leftarrow> jnp_matmul J K_xx_inv y_res;
                  mean \<leftarrow> jnp_matmul J k_pX t3;
                  mean \<leftarrow>
                    (case dkl_gp_mean_fn self of
                       None \<Rightarrow> Some mean
                     | Some gp_mean \<Rightarrow> do {
                         m \<leftarrow> gp_mean z_test (mean_args self params);
                         jnp_add J mean (squeeze m)
                       });
                  Some (mean, cov)
                })))"

text \<open>
  The closed-form predictive equations in the words of the specification, for training
  arrays \<open>X_train\<close>, \<open>y_train\<close>, a kernel \<open>K\<close>, an embedding \<open>net\<close> and an optional
  mean function \<open>m\<close> applied to \<open>(z, margs)\<close>. Products associate to the right.
\<close>

definition posterior_mean ::
    "numlib \<Rightarrow> kernel_fn \<Rightarrow> mean_fn option \<Rightarrow> params option \<Rightarrow>
     tensor \<Rightarrow> tensor \<Rightarrow> tensor \<Rightarrow> params \<Rightarrow> tensor \<Rightarrow> tensor option" where
  "posterior_mean J K m margs z_train z_test y_train params noise = do {
     k_pX \<leftarrow> K z_test z_train params None (Some 0);
     k_XX \<leftarrow> K z_train z_train params (Some noise) None;
     k_XX_inv \<leftarrow> linalg_inv J k_XX;
     (case m of
        None \<Rightarrow> do {
          a \<leftarrow> jnp_matmul J k_XX_inv y_train;
          jnp_matmul J k_pX a
        }
      | Some mf \<Rightarrow> do {
          m_train \<leftarrow> mf z_train margs;
          r \<leftarrow> jnp_subtract J y_train (squeeze m_train);
          a \<leftarrow> jnp_matmul J k_XX_inv r;
          b \<leftarrow> jnp_matmul J k_pX a;
          m_test \<leftarrow> mf z_test margs;
          jnp_add J b (squeeze m_test)
        })
   }"

definition posterior_cov ::
    "numlib \<Rightarrow> kernel_fn \<Rightarrow> tensor \<Rightarrow> tensor \<Rightarrow> params \<Rightarrow> tensor \<Rightarrow> tensor \<Rightarrow> tensor option" where
  "posterior_cov J K z_train z_test params noise noise_p = do {
     k_pp \<leftarrow> K z_test z_test params (Some noise_p) None;
     k_pX \<leftarrow> K z_test z_train params None (Some 0);
     k_XX \<leftarrow> K z_train z_train params (Some noise) None;
     k_XX_inv \<leftarrow> linalg_inv J k_XX;
     a \<leftarrow> jnp_matmul J k_XX_inv (jnp_transpose J k_pX);
     b \<leftarrow> jnp_matmul J k_pX a;
     jnp_subtract J k_pp b
   }"

definition gp_posterior ::
    "numlib \<Rightarrow> kernel_fn \<Rightarrow> (tensor \<Rightarrow> params \<Rightarrow> tensor option) \<Rightarrow> mean_fn option \<Rightarrow>
     params option \<Rightarrow> tensor \<Rightarrow> tensor \<Rightarrow> tensor \<Rightarrow> params \<Rightarrow> tensor \<Rightarrow> bool \<Rightarrow>
     (tensor \<times> tensor) option" where
  "gp_posterior J K net m margs X_train y_train X_new params noise noiseless = do {
     z_train \<leftarrow> net X_train params;
     z_test \<leftarrow> net X_new params;
     c \<leftarrow> jnp_subtract J (scalar 1) (jnp_array_bool noiseless);
     noise_p \<leftarrow> jnp_multiply J noise c;
     mean \<leftarrow> posterior_mean J K m margs z_train z_test y_train params noise;
     cov \<leftarrow> posterior_cov J K z_train z_test params noise noise_p;
     Some (mean, cov)
   }"

section \<open>Multi-task Gaussian process (multitask/mtgp.py)\<close>

text \<open>
  Kernel-parameter dictionaries of this class may hold \<open>None\<close> as a value
  (\<^verbatim>\<open>"period": None\<close>), so a value is an optional array.
\<close>

type_synonym kparams = "string \<rightharpoonup> tensor option"

type_synonym mt_prior = "engine \<Rightarrow> (kparams \<times> site list) option"

type_synonym mt_mean_fn = "tensor \<Rightarrow> kparams option \<Rightarrow> tensor option"

type_synonym noise_prior = "engine \<Rightarrow> (tensor \<times> site list) option"

type_synonym kwargs = "(string \<times> real) list"

type_synonym lcm_kernel = "tensor \<Rightarrow> tensor \<Rightarrow> kparams \<Rightarrow> tensor \<Rightarrow> kwargs \<Rightarrow> tensor option"

datatype data_kernel =
    KernelName string
  | KernelFunction "tensor \<Rightarrow> tensor \<Rightarrow> kparams \<Rightarrow> tensor option"

record MultiTaskGP =
  mt_kernel_dim :: int
  mt_mean_fn :: "mt_mean_fn option"
  mt_mean_fn_prior :: "mt_prior option"
  mt_noise_prior :: "noise_prior option"
  mt_X_train :: "tensor option"
  mt_num_tasks :: "int option"
  mt_num_latents :: "int option"
  mt_rank :: "int option"
  mt_kernel :: lcm_kernel
  mt_data_kernel_name :: "string option"
  mt_data_kernel_prior :: "mt_prior option"
  mt_task_kernel_prior :: "mt_prior option"
  mt_shared_input :: bool
  mt_output_scale :: bool

text \<open>
  The attributes that the base class provides to a multi-task object. Its initialiser
  and the constructor of \<^verbatim>\<open>LCMKernel\<close> (\<^verbatim>\<open>gpax/kernels\<close>) are not among the sources
  and are parameters of \<open>MultiTaskGP_init\<close>; the base initialiser receives the six
  positional arguments of the call.
\<close>

record ExactGP_mt =
  gp_kernel_dim :: int
  gp_mean_fn :: "mt_mean_fn option"
  gp_mean_fn_prior :: "mt_prior option"
  gp_noise_prior :: "noise_prior option"
  gp_X_train_mt :: "tensor option"

definition MultiTaskGP_init ::
    "(int \<Rightarrow> string option \<Rightarrow> mt_mean_fn option \<Rightarrow> mt_prior option \<Rightarrow> mt_prior option \<Rightarrow>
        noise_prior option \<Rightarrow> error + ExactGP_mt) \<Rightarrow>
     (data_kernel \<Rightarrow> bool \<Rightarrow> int option \<Rightarrow> kwargs \<Rightarrow> error + lcm_kernel) \<Rightarrow>
     int \<Rightarrow> data_kernel \<Rightarrow> int option \<Rightarrow> bool \<Rightarrow> int option \<Rightarrow> int option \<Rightarrow>
     mt_mean_fn option \<Rightarrow> mt_prior option \<Rightarrow> mt_prior option \<Rightarrow> noise_prior option \<Rightarrow>
     mt_prior option \<Rightarrow> bool \<Rightarrow> kwargs \<Rightarrow> error + MultiTaskGP" where
  "MultiTaskGP_init ExactGP_init LCMKernel input_dim data_kernel num_latents shared_input_space
       num_tasks rank mean_fn data_kernel_prior mean_fn_prior noise_prior task_kernel_prior
       output_scale kw =
     (case ExactGP_init input_dim None mean_fn None mean_fn_prior noise_prior of
        Inl e \<Rightarrow> Inl e
      | Inr base \<Rightarrow>
          if shared_input_space \<and> num_tasks = None
          then Inl (ValueError ''Please specify num_tasks'')
          else if \<not> shared_input_space \<and> num_latents = None
          then Inl (ValueError ''Please specify num_latents'')
          else
            (case LCMKernel data_kernel shared_input_space num_tasks kw of
               Inl e \<Rightarrow> Inl e
             | Inr k \<Rightarrow> Inr \<lparr>
                 mt_kernel_dim = gp_kernel_dim base,
                 mt_mean_fn = gp_mean_fn base,
                 mt_mean_fn_prior = gp_mean_fn_prior base,
                 mt_noise_prior = gp_noise_prior base,
                 mt_X_train = gp_X_train_mt base,
                 mt_num_tasks = num_tasks,
                 mt_num_latents = (case num_latents of None \<Rightarrow> num_tasks | Some l \<Rightarrow> Some l),
                 mt_rank = rank,
                 mt_kernel = k,
                 mt_data_kernel_name =
                   (case data_kernel of KernelName s \<Rightarrow> Some s | KernelFunction f \<Rightarrow> None),
                 mt_data_kernel_prior = data_kernel_prior,
                 mt_task_kernel_prior = task_kernel_prior,
                 mt_shared_input = shared_input_space,
                 mt_output_scale = output_scale \<rparr>))"

text \<open>\<^verbatim>\<open>numpyro.plate(name, n, dim=-ax)\<close>; the size must be positive.\<close>

definition plate :: "int \<Rightarrow> nat \<Rightarrow> (nat \<times> nat) option" where
  "plate n ax = (if 0 < n then Some (nat n, ax) else None)"

definition sample_task_kernel_params :: "engine \<Rightarrow> MultiTaskGP \<Rightarrow> (kparams \<times> site list) option" where
  "sample_task_kernel_params eng self = do {
     l \<leftarrow> mt_num_latents self;
     t \<leftarrow> mt_num_tasks self;
     r \<leftarrow> mt_rank self;
     W_loc \<leftarrow> jnp_zeros [l, t, r];
     W_ones \<leftarrow> jnp_ones [l, t, r];
     let W_dist = Normal W_loc (scalar_times 10 W_ones);
     v_loc \<leftarrow> jnp_zeros [l, t];
     v_scale \<leftarrow> jnp_ones [l, t];
     let v_dist = LogNormal v_loc v_scale;
     latent_plate_task \<leftarrow> plate l 1;
     (W, s_W) \<leftarrow> numpyro_sample eng [latent_plate_task] ''W'' (ToEvent 2 W_dist);
     (v, s_v) \<leftarrow> numpyro_sample eng [latent_plate_task] ''v'' (ToEvent 1 v_dist);
     Some ([''W'' \<mapsto> Some W, ''v'' \<mapsto> Some v], [s_W, s_v])
   }"

definition sample_kernel_params :: "engine \<Rightarrow> MultiTaskGP \<Rightarrow> (kparams \<times> site list) option" where
  "sample_kernel_params eng self = do {
     l \<leftarrow> mt_num_latents self;
     let squeezer = (\<lambda>x. if l > 1 then squeeze x else x);
     latent_plate_data \<leftarrow> plate l 2;
     ard \<leftarrow> plate (mt_kernel_dim self) 1;
     (k_length, s_length) \<leftarrow>
       numpyro_sample eng [ard, latent_plate_data] ''k_length'' (LogNormal (scalar 0) (scalar 1));
     (k_scale, s_scale) \<leftarrow>
       (if mt_output_scale self
        then numpyro_sample eng [latent_plate_data] ''k_scale'' (LogNormal (scalar 0) (scalar 1))
        else do { u \<leftarrow> jnp_ones [l]; Some (u, Deterministic ''k_scale'' u) });
     (period, s_period) \<leftarrow>
       (if mt_data_kernel_name self = Some ''Periodic''
        then do {
          (p, s) \<leftarrow> numpyro_sample eng [latent_plate_data] ''period''
                      (LogNormal (scalar 0) (scalar 1));
          Some (Some p, [s])
        }
        else Some (None, []));
     Some ([''k_length'' \<mapsto> Some (squeezer k_length),
            ''k_scale'' \<mapsto> Some (squeezer k_scale),
            ''period'' \<mapsto> map_option squeezer period],
           [s_length, s_scale] @ s_period)
   }"

text \<open>
  The two assignments by which \<^verbatim>\<open>model\<close> completes the configuration of the object
  (lines 90-94).
\<close>

definition infer_num_tasks :: "MultiTaskGP \<Rightarrow> MultiTaskGP option" where
  "infer_num_tasks self =
     (if \<not> mt_shared_input self \<and> mt_num_tasks self = None
      then do {
        X_train \<leftarrow> mt_X_train self;
        c \<leftarrow> num_unique_last_column X_train;
        Some (self\<lparr>mt_num_tasks := Some c\<rparr>)
      }
      else Some self)"

definition default_rank :: "MultiTaskGP \<Rightarrow> MultiTaskGP option" where
  "default_rank self =
     (if mt_rank self = None
      then do {
        t \<leftarrow> mt_num_tasks self;
        Some (self\<lparr>mt_rank := Some (t - 1)\<rparr>)
      }
      else Some self)"

text \<open>The default observational noise (lines 115-119).\<close>

definition default_noise :: "engine \<Rightarrow> MultiTaskGP \<Rightarrow> (tensor \<times> site list) option" where
  "default_noise eng self = do {
     t \<leftarrow> mt_num_tasks self;
     loc \<leftarrow> jnp_zeros [t];
     scale \<leftarrow> jnp_ones [t];
     (v, s) \<leftarrow> numpyro_sample eng [] ''noise'' (ToEvent 1 (LogNormal loc scale));
     Some (v, [s])
   }"

text \<open>The initial value of \<^verbatim>\<open>f_loc\<close> (lines 84-87).\<close>

definition init_f_loc :: "MultiTaskGP \<Rightarrow> tensor \<Rightarrow> tensor option" where
  "init_f_loc self X =
     (if mt_shared_input self
      then do { t \<leftarrow> mt_num_tasks self; n \<leftarrow> shape0 X; jnp_zeros [t * int n] }
      else do { n \<leftarrow> shape0 X; jnp_zeros [int n] })"

text \<open>
  \<^verbatim>\<open>MultiTaskGP.model\<close>: the object after the call (its assignments stay when a later
  statement raises) and the trace of the statements executed.
\<close>

definition MultiTaskGP_model ::
    "numlib \<Rightarrow> engine \<Rightarrow> MultiTaskGP \<Rightarrow> tensor \<Rightarrow> tensor option \<Rightarrow> kwargs \<Rightarrow>
     MultiTaskGP \<times> site list option" where
  "MultiTaskGP_model J eng self X y kw =
     (case init_f_loc self X of
        None \<Rightarrow> (self, None)
      | Some f_loc \<Rightarrow>
          (case infer_num_tasks self of
             None \<Rightarrow> (self, None)
           | Some self1 \<Rightarrow>
               (case default_rank self1 of
                  None \<Rightarrow> (self1, None)
                | Some self2 \<Rightarrow>
                    (self2, do {
                       (data_kernel_params, tr_data) \<leftarrow>
                         (case mt_data_kernel_prior self2 of
                            Some p \<Rightarrow> p eng
                          | None \<Rightarrow> sample_kernel_params eng self2);
                       (task_kernel_params, tr_task) \<leftarrow>
                         (case mt_task_kernel_prior self2 of
                            Some p \<Rightarrow> p eng
                          | None \<Rightarrow> sample_task_kernel_params eng self2);
                       let kernel_params = data_kernel_params ++ task_kernel_params;
                       (noise, tr_noise) \<leftarrow>
                         (case mt_noise_prior self2 of
                            Some p \<Rightarrow> p eng
                          | None \<Rightarrow> default_noise eng self2);
                       k \<leftarrow> mt_kernel self2 X X kernel_params noise kw;
                       (f_loc, tr_mean) \<leftarrow>
                         prior_mean J eng (mt_mean_fn self2) (mt_mean_fn_prior self2) X f_loc;
                       Some (tr_data @ tr_task @ tr_noise @ tr_mean @
                             [SampleMVN ''y'' f_loc k y])
                     }))))"

section \<open>An instance for evaluation\<close>

text \<open>
  One admissible library, with exact real arithmetic: elementwise operations with
  broadcasting, products of a 2-D array with a 2-D or 1-D array, the transpose of a 2-D
  array and the inverse of a 1x1 matrix; anything else raises. The examples below are
  evaluated in it.
\<close>

fun unravel :: "nat list \<Rightarrow> nat \<Rightarrow> nat list" where
  "unravel [] i = []"
| "unravel (d # ds) i = (i div prod_list ds) mod d # unravel ds i"

definition ravel :: "nat list \<Rightarrow> nat list \<Rightarrow> nat" where
  "ravel s idx = foldl (\<lambda>acc (d, i). acc * d + i) 0 (zip s idx)"

definition bget :: "tensor \<Rightarrow> nat list \<Rightarrow> real" where
  "bget a idx =
     elems a ! ravel (shape a)
       (map2 (\<lambda>d i. if d = 1 then 0 else i) (shape a) (drop (length idx - length (shape a)) idx))"

definition elementwise :: "(real \<Rightarrow> real \<Rightarrow> real) \<Rightarrow> tensor \<Rightarrow> tensor \<Rightarrow> tensor option" where
  "elementwise f a b =
     map_option
       (\<lambda>s. Tensor s (map (\<lambda>i. f (bget a (unravel s i)) (bget b (unravel s i))) [0..<prod_list s]))
       (broadcast_shapes (shape a) (shape b))"

definition matmul2 :: "tensor \<Rightarrow> tensor \<Rightarrow> tensor option" where
  "matmul2 a b =
     (case (shape a, shape b) of
        ([n, k], [k', m]) \<Rightarrow>
          if k = k'
          then Some (Tensor [n, m]
                 (concat (map (\<lambda>i. map (\<lambda>j.
                    sum_list (map (\<lambda>l. elems a ! (i * k + l) * elems b ! (l * m + j)) [0..<k]))
                    [0..<m]) [0..<n])))
          else None
      | ([n, k], [k']) \<Rightarrow>
          if k = k'
          then Some (Tensor [n]
                 (map (\<lambda>i. sum_list (map (\<lambda>l. elems a ! (i * k + l) * elems b ! l) [0..<k]))
                    [0..<n]))
          else None
      | _ \<Rightarrow> None)"

definition transpose2 :: "tensor \<Rightarrow> tensor" where
  "transpose2 a =
     (case shape a of
        [n, m] \<Rightarrow> Tensor [m, n] (concat (map (\<lambda>j. map (\<lambda>i. elems a ! (i * m + j)) [0..<n]) [0..<m]))
      | _ \<Rightarrow> a)"

definition inv1 :: "tensor \<Rightarrow> tensor option" where
  "inv1 a =
     (case (shape a, elems a) of
        ([n, m], [x]) \<Rightarrow> if n = 1 \<and> m = 1 \<and> x \<noteq> 0 then Some (Tensor [1, 1] [1 / x]) else None
      | _ \<Rightarrow> None)"

definition ideal_lib :: numlib where
  "ideal_lib = \<lparr>
     jnp_matmul = matmul2,
     jnp_add = elementwise (\<lambda>x y. x + y),
     jnp_subtract = elementwise (\<lambda>x y. x - y),
     jnp_multiply = elementwise (\<lambda>x y. x * y),
     jnp_tanh = (\<lambda>a. Tensor (shape a) (map tanh (elems a))),
     jnp_transpose = transpose2,
     linalg_inv = inv1 \<rparr>"

subsection \<open>A fitted DKL object with one training point\<close>

definition ex_params :: params where
  "ex_params = [''w1'' \<mapsto> Tensor [1, 1] [0], ''b1'' \<mapsto> Tensor [1] [0],
                ''w2'' \<mapsto> Tensor [1, 1] [1], ''b2'' \<mapsto> Tensor [1] [0],
                ''w3'' \<mapsto> Tensor [1, 1] [2], ''b3'' \<mapsto> Tensor [1] [1],
                ''noise'' \<mapsto> scalar 1]"

text \<open>A kernel that is 1 everywhere, plus noise and jitter on the diagonal of a square call.\<close>

definition ex_kernel :: kernel_fn where
  "ex_kernel X Z params noise jitter =
     (case (shape0 X, shape0 Z) of
        (Some n, Some m) \<Rightarrow>
          Some (Tensor [n, m]
            (map (\<lambda>i. 1 + (if shape X = shape Z \<and> i div m = i mod m
                            then (case noise of None \<Rightarrow> 0 | Some t \<Rightarrow> hd (elems t)) +
                                 (case jitter of None \<Rightarrow> 0 | Some j \<Rightarrow> j)
                            else 0))
               [0..<n * m]))
      | _ \<Rightarrow> None)"

definition ex_get_kernel :: "string \<Rightarrow> kernel_fn option" where
  "ex_get_kernel name = (if name = ''RBF'' then Some ex_kernel else None)"

text \<open>A constant mean function, returned as a column.\<close>

definition ex_mean :: mean_fn where
  "ex_mean z arg = map_option (\<lambda>n. Tensor [n, 1] (replicate n 1)) (shape0 z)"

definition ex_engine :: engine where
  "ex_engine name i = (if name = ''noise'' then 1 else 0)"

text \<open>A user-supplied prior over the weights of a network with one unit per layer.\<close>

definition ex_bnn_prior :: prior where
  "ex_bnn_prior eng = do {
     (w1, s1) \<leftarrow> sample_weights eng ''w1'' 1 1;
     (b1, s2) \<leftarrow> sample_biases eng ''b1'' 1;
     (w2, s3) \<leftarrow> sample_weights eng ''w2'' 1 1;
     (b2, s4) \<leftarrow> sample_biases eng ''b2'' 1;
     (w3, s5) \<leftarrow> sample_weights eng ''w3'' 1 1;
     (b3, s6) \<leftarrow> sample_biases eng ''b3'' 1;
     Some ([''w1'' \<mapsto> w1, ''b1'' \<mapsto> b1, ''w2'' \<mapsto> w2, ''b2'' \<mapsto> b2,
            ''w3'' \<mapsto> w3, ''b3'' \<mapsto> b3],
           [s1, s2, s3, s4, s5, s6])
   }"

definition ex_dkl :: DKL where
  "ex_dkl = \<lparr>
     dkl_kernel = ''RBF'', dkl_kernel_prior = None,
     dkl_X_train = Some 0, dkl_y_train = Some 1,
     dkl_bnn = bnn ideal_lib, dkl_bnn_prior = ex_bnn_prior, dkl_kernel_dim = 1,
     dkl_latent_prior = None, dkl_gp_mean_fn = Some ex_mean, dkl_gp_mean_fn_prior = None \<rparr>"

definition ex_store :: store where
  "ex_store = [Tensor [1, 1] [5], Tensor [1] [4]]"

text \<open>A default kernel prior standing for the inherited one, and the trace of the example.\<close>

definition ex_default_kernel_prior :: "DKL \<Rightarrow> prior" where
  "ex_default_kernel_prior self eng = do {
     (l, s) \<leftarrow> numpyro_sample eng [] ''k_length'' (LogNormal (scalar 0) (scalar 1));
     Some ([''k_length'' \<mapsto> l], [s])
   }"

definition ex_weight_site :: "string \<Rightarrow> site" where
  "ex_weight_site name =
     Sample name (Normal (Tensor [1, 1] [0]) (Tensor [1, 1] [1])) (Tensor [1, 1] [0])"

definition ex_bias_site :: "string \<Rightarrow> site" where
  "ex_bias_site name = Sample name (Normal (Tensor [1] [0]) (Tensor [1] [1])) (Tensor [1] [0])"

definition ex_dkl_trace :: "site list" where
  "ex_dkl_trace =
     [ex_weight_site ''w1'', ex_bias_site ''b1'', ex_weight_site ''w2'', ex_bias_site ''b2'',
      ex_weight_site ''w3'', ex_bias_site ''b3'',
      Sample ''k_length'' (LogNormal (scalar 0) (scalar 1)) (Tensor [] [0]),
      Sample ''noise'' (LogNormal (scalar 0) (scalar 1)) (Tensor [] [1]),
      SampleMVN ''y'' (Tensor [1] [1]) (Tensor [1, 1] [2]) (Some (Tensor [1] [4]))]"

text \<open>
  Modelled from the spec: the initialiser of the base class \<^verbatim>\<open>ExactGP\<close> is not among the
  sources; the specification treats the base class as a collaborator with a defined
  interface, and the interface is the one the call at mtgp.py line 57 uses: the positional
  parameters are \<^verbatim>\<open>(input_dim, kernel, mean_fn, kernel_prior, mean_fn_prior, noise_prior)\<close>,
  each stored under its name, an absent one being None, and the object is left unfitted.
  Called with three positional arguments, as at dkl.py line 36, it binds the third to
  \<^verbatim>\<open>mean_fn\<close> and leaves \<^verbatim>\<open>kernel_prior\<close> None.
\<close>

definition ex_ExactGP_init_dkl :: "int \<Rightarrow> string \<Rightarrow> prior option \<Rightarrow> error + ExactGP_dkl" where
  "ex_ExactGP_init_dkl input_dim kernel_name mean_fn =
     Inr \<lparr> gp_kernel = kernel_name, gp_mean_fn_arg = mean_fn, gp_kernel_prior = None,
           gp_X_train = None, gp_y_train = None \<rparr>"

text \<open>
  A kernel prior supplied by the user, whose length scale is centred at 2 where the default
  is centred at 0, the site it records, and the object that the constructor builds when it
  is passed as \<^verbatim>\<open>kernel_prior\<close>.
\<close>

definition ex_user_kernel_prior :: prior where
  "ex_user_kernel_prior eng = do {
     (l, s) \<leftarrow> numpyro_sample eng [] ''k_length'' (LogNormal (scalar 2) (scalar 1));
     Some ([''k_length'' \<mapsto> l], [s])
   }"

definition ex_user_site :: site where
  "ex_user_site = Sample ''k_length'' (LogNormal (scalar 2) (scalar 1)) (Tensor [] [0])"

definition ex_dkl_built :: DKL where
  "ex_dkl_built = \<lparr>
     dkl_kernel = ''RBF'', dkl_kernel_prior = None,
     dkl_X_train = None, dkl_y_train = None,
     dkl_bnn = bnn ideal_lib, dkl_bnn_prior = ex_bnn_prior, dkl_kernel_dim = 1,
     dkl_latent_prior = None, dkl_gp_mean_fn = Some ex_mean, dkl_gp_mean_fn_prior = None \<rparr>"

subsection \<open>Multi-task objects\<close>

text \<open>
  The same base-class initialiser called with its six positional arguments (mtgp.py line
  57), and a kernel object whose matrix is 1 everywhere; with a shared input space it has
  \<open>num_tasks\<close> rows for each row of the input.
\<close>

definition ex_ExactGP_init ::
    "int \<Rightarrow> string option \<Rightarrow> mt_mean_fn option \<Rightarrow> mt_prior option \<Rightarrow> mt_prior option \<Rightarrow>
     noise_prior option \<Rightarrow> error + ExactGP_mt" where
  "ex_ExactGP_init input_dim kernel_name mean_fn kernel_prior mean_fn_prior noise_prior =
     Inr \<lparr> gp_kernel_dim = input_dim, gp_mean_fn = mean_fn, gp_mean_fn_prior = mean_fn_prior,
           gp_noise_prior = noise_prior, gp_X_train_mt = None \<rparr>"

definition ex_lcm :: "nat \<Rightarrow> lcm_kernel" where
  "ex_lcm t X Z params noise kw =
     (case (shape0 X, shape0 Z) of
        (Some n, Some m) \<Rightarrow> Some (Tensor [t * n, t * m] (replicate (t * n * (t * m)) 1))
      | _ \<Rightarrow> None)"

definition ex_LCMKernel :: "data_kernel \<Rightarrow> bool \<Rightarrow> int option \<Rightarrow> kwargs \<Rightarrow> error + lcm_kernel" where
  "ex_LCMKernel data_kernel shared_input_space num_tasks kw =
     Inr (ex_lcm (case num_tasks of Some t \<Rightarrow> if shared_input_space then nat t else 1 | None \<Rightarrow> 1))"

definition ex_mt :: MultiTaskGP where
  "ex_mt = \<lparr>
     mt_kernel_dim = 1, mt_mean_fn = None, mt_mean_fn_prior = None, mt_noise_prior = None,
     mt_X_train = None, mt_num_tasks = Some 2, mt_num_latents = Some 2, mt_rank = None,
     mt_kernel = ex_lcm 2, mt_data_kernel_name = Some ''RBF'', mt_data_kernel_prior = None,
     mt_task_kernel_prior = None, mt_shared_input = True, mt_output_scale = False \<rparr>"

definition ex_mt_kparams :: kparams where
  "ex_mt_kparams =
     [''k_length'' \<mapsto> Some (Tensor [2] [0, 0]), ''k_scale'' \<mapsto> Some (Tensor [2] [1, 1]),
      ''period'' \<mapsto> None]"

definition ex_mt_data_trace :: "site list" where
  "ex_mt_data_trace =
     [Sample ''k_length'' (LogNormal (scalar 0) (scalar 1)) (Tensor [2, 1] [0, 0]),
      Deterministic ''k_scale'' (Tensor [2] [1, 1])]"




definition ex_mt_configured :: MultiTaskGP where
  "ex_mt_configured = ex_mt\<lparr>mt_rank := Some 1\<rparr>"

text \<open>An object for tasks with separate inputs: the task index is the last column.\<close>

definition ex_mt2 :: MultiTaskGP where
  "ex_mt2 = \<lparr>
     mt_kernel_dim = 1, mt_mean_fn = None, mt_mean_fn_prior = None, mt_noise_prior = None,
     mt_X_train = Some (Tensor [3, 2] [0, 0, 1, 1, 2, 0]),
     mt_num_tasks = None, mt_num_latents = Some 1, mt_rank = None,
     mt_kernel = ex_lcm 1, mt_data_kernel_name = Some ''RBF'', mt_data_kernel_prior = None,
     mt_task_kernel_prior = None, mt_shared_input = False, mt_output_scale = False \<rparr>"


section \<open>Theorems\<close>

subsection \<open>Evaluating the examples\<close>

lemmas ex_simps = ideal_lib_def ex_params_def matmul2_def elementwise_def broadcast_shapes_def
  bget_def ravel_def ex_kernel_def ex_get_kernel_def ex_mean_def ex_dkl_def ex_store_def
  transpose2_def inv1_def shape0_def squeeze_def scalar_def jnp_array_bool_def deref_def
  isub_def mean_args_def

lemma ex_bnn:
  "bnn ideal_lib (Tensor [Suc 0, Suc 0] [x]) ex_params = Some (Tensor [Suc 0, Suc 0] [1])"
  by (simp add: bnn_def ex_simps)

lemma ex_noise: "ex_params ''noise'' = Some (scalar 1)"
  by (simp add: ex_params_def)

lemma ex_post_noisy:
  "get_mvn_posterior ideal_lib ex_get_kernel ex_dkl ex_store (Tensor [1, 1] [7]) ex_params False =
     (ex_store @ [Tensor [1] [3]], Some (Tensor [1] [5 / 2], Tensor [1, 1] [3 / 2]))"
  apply (simp add: get_mvn_posterior_def ex_dkl_def ex_store_def deref_def ex_bnn ex_noise)
  apply (simp add: ex_simps)
  done

lemma ex_post_noiseless:
  "get_mvn_posterior ideal_lib ex_get_kernel ex_dkl ex_store (Tensor [1, 1] [7]) ex_params True =
     (ex_store @ [Tensor [1] [3]], Some (Tensor [1] [5 / 2], Tensor [1, 1] [1 / 2]))"
  apply (simp add: get_mvn_posterior_def ex_dkl_def ex_store_def deref_def ex_bnn ex_noise)
  apply (simp add: ex_simps)
  done

lemma ex_trained:
  "deref ex_store (dkl_X_train ex_dkl) = Some (Tensor [1, 1] [5])"
  "deref ex_store (dkl_y_train ex_dkl) = Some (Tensor [1] [4])"
  "ex_get_kernel (dkl_kernel ex_dkl) = Some ex_kernel"
  by (simp_all add: ex_simps)

subsection \<open>The store\<close>

lemma deref_append: "deref h r = Some a \<Longrightarrow> deref (h @ ext) r = Some a"
  by (auto simp: deref_def nth_append split: option.splits if_splits)

lemma deref_fresh: "deref (h @ [d]) (Some (length h)) = Some d"
  by (simp add: deref_def)

lemma get_mvn_posterior_extends:
  "\<exists>ext. fst (get_mvn_posterior J get_kernel self h X_new params noiseless) = h @ ext"
  by (auto simp: get_mvn_posterior_def isub_def bind_eq_Some_conv split: option.splits prod.splits)

subsection \<open>Shapes of sampled values\<close>

lemma broadcast_rev_same: "broadcast_rev xs xs = Some xs"
  by (induction xs) simp_all

lemma broadcast_shapes_same: "broadcast_shapes s s = Some s"
  by (simp add: broadcast_shapes_def broadcast_rev_same)

lemma shape_zeros: "list_all (\<lambda>d. 0 \<le> d) ds \<Longrightarrow> \<exists>a. jnp_zeros ds = Some a \<and> shape a = map nat ds"
  by (simp add: jnp_zeros_def to_dims_def)

lemma shape_ones: "list_all (\<lambda>d. 0 \<le> d) ds \<Longrightarrow> \<exists>a. jnp_ones ds = Some a \<and> shape a = map nat ds"
  by (simp add: jnp_ones_def to_dims_def)

lemma numpyro_sample_shape:
  assumes "dist_shapes d = Some (b, e)" and "plates_expand ps b = Some b'"
  shows "\<exists>v. numpyro_sample eng ps name d = Some (v, Sample name d v) \<and> shape v = b' @ e"
  using assms by (simp add: numpyro_sample_def Let_def)

lemma sample_weights_shape:
  assumes "0 \<le> a" and "0 \<le> b"
  shows "\<exists>w s. sample_weights eng name a b = Some (w, s) \<and> shape w = [nat a, nat b]"
proof -
  obtain z where z: "jnp_zeros [a, b] = Some z" "shape z = [nat a, nat b]"
    using shape_zeros [of "[a, b]"] assms by auto
  obtain u where u: "jnp_ones [a, b] = Some u" "shape u = [nat a, nat b]"
    using shape_ones [of "[a, b]"] assms by auto
  have "dist_shapes (Normal z u) = Some ([nat a, nat b], [])"
    by (simp add: z u broadcast_shapes_same)
  from numpyro_sample_shape [OF this, of "[]" "[nat a, nat b]" eng name]
  show ?thesis
    by (auto simp: sample_weights_def z u)
qed

lemma sample_biases_shape:
  assumes "0 \<le> c"
  shows "\<exists>w s. sample_biases eng name c = Some (w, s) \<and> shape w = [nat c]"
proof -
  obtain z where z: "jnp_zeros [c] = Some z" "shape z = [nat c]"
    using shape_zeros [of "[c]"] assms by auto
  obtain u where u: "jnp_ones [c] = Some u" "shape u = [nat c]"
    using shape_ones [of "[c]"] assms by auto
  have "dist_shapes (Normal z u) = Some ([nat c], [])"
    by (simp add: z u broadcast_shapes_same)
  from numpyro_sample_shape [OF this, of "[]" "[nat c]" eng name]
  show ?thesis
    by (auto simp: sample_biases_def z u)
qed

lemma bnn_prior_shapes:
  assumes "0 \<le> input_dim" and "0 \<le> zdim"
  shows "\<exists>p tr. bnn_prior input_dim zdim eng = Some (p, tr) \<and>
           dom p = {''w1'', ''b1'', ''w2'', ''b2'', ''w3'', ''b3''} \<and>
           map_option shape (p ''w1'') = Some [nat input_dim, 64] \<and>
           map_option shape (p ''b1'') = Some [64] \<and>
           map_option shape (p ''w2'') = Some [64, 32] \<and>
           map_option shape (p ''b2'') = Some [32] \<and>
           map_option shape (p ''w3'') = Some [32, nat zdim] \<and>
           map_option shape (p ''b3'') = Some [nat zdim]"
proof -
  obtain w1 s1 where 1: "sample_weights eng ''w1'' input_dim 64 = Some (w1, s1)"
      "shape w1 = [nat input_dim, 64]"
    using sample_weights_shape [of input_dim 64 eng "''w1''"] assms by auto
  obtain b1 s2 where 2: "sample_biases eng ''b1'' 64 = Some (b1, s2)" "shape b1 = [64]"
    using sample_biases_shape [of 64 eng "''b1''"] by auto
  obtain w2 s3 where 3: "sample_weights eng ''w2'' 64 32 = Some (w2, s3)" "shape w2 = [64, 32]"
    using sample_weights_shape [of 64 32 eng "''w2''"] by auto
  obtain b2 s4 where 4: "sample_biases eng ''b2'' 32 = Some (b2, s4)" "shape b2 = [32]"
    using sample_biases_shape [of 32 eng "''b2''"] by auto
  obtain w3 s5 where 5: "sample_weights eng ''w3'' 32 zdim = Some (w3, s5)"
      "shape w3 = [32, nat zdim]"
    using sample_weights_shape [of 32 zdim eng "''w3''"] assms by auto
  obtain b3 s6 where 6: "sample_biases eng ''b3'' zdim = Some (b3, s6)" "shape b3 = [nat zdim]"
    using sample_biases_shape [of zdim eng "''b3''"] assms by auto
  have "bnn_prior input_dim zdim eng =
          Some ([''w1'' \<mapsto> w1, ''b1'' \<mapsto> b1, ''w2'' \<mapsto> w2, ''b2'' \<mapsto> b2,
                 ''w3'' \<mapsto> w3, ''b3'' \<mapsto> b3], [s1, s2, s3, s4, s5, s6])"
    by (simp add: bnn_prior_def 1 2 3 4 5 6)
  then show ?thesis
    using 1 2 3 4 5 6 by auto
qed

lemma task_kernel_shapes:
  assumes "mt_num_latents self = Some l" and "mt_num_tasks self = Some t"
    and "mt_rank self = Some r" and "0 < l" and "0 \<le> t" and "0 \<le> r"
  shows "\<exists>p tr W v. sample_task_kernel_params eng self = Some (p, tr) \<and>
           dom p = {''W'', ''v''} \<and> p ''W'' = Some (Some W) \<and> p ''v'' = Some (Some v) \<and>
           shape W = [nat l, nat t, nat r] \<and> shape v = [nat l, nat t]"
proof -
  obtain zW where zW: "jnp_zeros [l, t, r] = Some zW" "shape zW = [nat l, nat t, nat r]"
    using shape_zeros [of "[l, t, r]"] assms by auto
  obtain oW where oW: "jnp_ones [l, t, r] = Some oW" "shape oW = [nat l, nat t, nat r]"
    using shape_ones [of "[l, t, r]"] assms by auto
  obtain zv where zv: "jnp_zeros [l, t] = Some zv" "shape zv = [nat l, nat t]"
    using shape_zeros [of "[l, t]"] assms by auto
  obtain ov where ov: "jnp_ones [l, t] = Some ov" "shape ov = [nat l, nat t]"
    using shape_ones [of "[l, t]"] assms by auto
  have p: "plate l (Suc 0) = Some (nat l, Suc 0)"
    using assms by (simp add: plate_def)
  have e: "plates_expand [(nat l, Suc 0)] [nat l] = Some [nat l]"
    by (simp add: broadcast_shapes_same)
  have dW: "dist_shapes (ToEvent 2 (Normal zW (scalar_times 10 oW))) = Some ([nat l], [nat t, nat r])"
    by (simp add: zW oW scalar_times_def broadcast_shapes_same)
  have dv: "dist_shapes (ToEvent (Suc 0) (LogNormal zv ov)) = Some ([nat l], [nat t])"
    by (simp add: zv ov broadcast_shapes_same)
  obtain W where W: "numpyro_sample eng [(nat l, Suc 0)] ''W'' (ToEvent 2 (Normal zW (scalar_times 10 oW)))
        = Some (W, Sample ''W'' (ToEvent 2 (Normal zW (scalar_times 10 oW))) W)"
      "shape W = [nat l, nat t, nat r]"
    using numpyro_sample_shape [OF dW e, of eng "''W''"] by auto
  obtain v where v: "numpyro_sample eng [(nat l, Suc 0)] ''v'' (ToEvent (Suc 0) (LogNormal zv ov))
        = Some (v, Sample ''v'' (ToEvent (Suc 0) (LogNormal zv ov)) v)"
      "shape v = [nat l, nat t]"
    using numpyro_sample_shape [OF dv e, of eng "''v''"] by auto
  have "sample_task_kernel_params eng self =
          Some ([''W'' \<mapsto> Some W, ''v'' \<mapsto> Some v],
                [Sample ''W'' (ToEvent 2 (Normal zW (scalar_times 10 oW))) W,
                 Sample ''v'' (ToEvent 1 (LogNormal zv ov)) v])"
    by (simp add: sample_task_kernel_params_def assms zW oW zv ov p W v)
  then show ?thesis
    using W v by auto
qed

subsection \<open>Decomposing a successful run of a model\<close>

lemma sample_kernel_params_SomeE:
  assumes "sample_kernel_params eng self = Some (p, tr)"
  obtains a b c where "p = [''k_length'' \<mapsto> Some a, ''k_scale'' \<mapsto> Some b, ''period'' \<mapsto> c]"
    and "c \<noteq> None \<longleftrightarrow> mt_data_kernel_name self = Some ''Periodic''"
proof -
  from assms obtain pd f a b period s_period where
    per: "(if mt_data_kernel_name self = Some ''Periodic''
          then do {
            (p, s) \<leftarrow> numpyro_sample eng [pd] ''period'' (LogNormal (scalar 0) (scalar 1));
            Some (Some p, [s])
          }
          else Some (None, [])) = Some (period, s_period)"
    and p: "p = [''k_length'' \<mapsto> Some a, ''k_scale'' \<mapsto> Some b,
              ''period'' \<mapsto> map_option f period]"
    unfolding sample_kernel_params_def Let_def bind_eq_Some_conv split_paired_Ex case_prod_conv
      option.inject prod.inject
    by blast
  from per have "period \<noteq> None \<longleftrightarrow> mt_data_kernel_name self = Some ''Periodic''"
    by (auto simp: bind_eq_Some_conv split: if_splits)
  then have "map_option f period \<noteq> None \<longleftrightarrow> mt_data_kernel_name self = Some ''Periodic''"
    by simp
  with p that show ?thesis
    by blast
qed


lemma prior_mean_Some:
  assumes "prior_mean J eng mf mfp x f0 = Some (f_loc, tr)"
  shows "case mf of
           None \<Rightarrow> f_loc = f0
         | Some mean \<Rightarrow> \<exists>arg m. mean x arg = Some m \<and> jnp_add J f0 (squeeze m) = Some f_loc"
  using assms
  by (auto simp: prior_mean_def bind_eq_Some_conv split: option.splits)

lemma default_noise_Some:
  assumes "default_noise eng self = Some (noise, tr_n)"
  shows "\<exists>t. mt_num_tasks self = Some t \<and> 0 \<le> t \<and> shape noise = [nat t] \<and>
           tr_n = [Sample ''noise''
                    (ToEvent 1 (LogNormal (Tensor [nat t] (replicate (nat t) 0))
                                          (Tensor [nat t] (replicate (nat t) 1)))) noise]"
  using assms
  by (auto simp: default_noise_def jnp_zeros_def jnp_ones_def to_dims_def bind_eq_Some_conv
      numpyro_sample_def broadcast_shapes_same Let_def split: if_splits)


lemma numpyro_sample_scalar:
  "numpyro_sample eng [] name (LogNormal (scalar a) (scalar b)) =
     Some (Tensor [] [eng name 0],
           Sample name (LogNormal (scalar a) (scalar b)) (Tensor [] [eng name 0]))"
  by (simp add: numpyro_sample_def scalar_def broadcast_shapes_def Let_def)

lemma jnp_zeros_nat: "jnp_zeros [int n] = Some (Tensor [n] (replicate n 0))"
  by (simp add: jnp_zeros_def to_dims_def)

lemma DKL_model_SomeE:
  assumes "DKL_model J gk dkp eng self X y = Some tr"
  obtains bnn_params tr_bnn z n f_loc tr_mean z' tr_latent kernel_params tr_kernel noise K k
  where "dkl_bnn_prior self eng = Some (bnn_params, tr_bnn)"
    and "dkl_bnn self X bnn_params = Some z"
    and "shape0 z = Some n"
    and "prior_mean J eng (dkl_gp_mean_fn self) (dkl_gp_mean_fn_prior self) z
           (Tensor [n] (replicate n 0)) = Some (f_loc, tr_mean)"
    and "(case dkl_latent_prior self of None \<Rightarrow> Some (z, []) | Some lp \<Rightarrow> lp eng z) =
           Some (z', tr_latent)"
    and "(case dkl_kernel_prior self of Some kp \<Rightarrow> kp eng | None \<Rightarrow> dkp self eng) =
           Some (kernel_params, tr_kernel)"
    and "noise = Tensor [] [eng ''noise'' 0]"
    and "gk (dkl_kernel self) = Some K"
    and "K z' z' kernel_params (Some noise) None = Some k"
    and "tr = tr_bnn @ tr_mean @ tr_latent @ tr_kernel @
              [Sample ''noise'' (LogNormal (scalar 0) (scalar 1)) noise,
               SampleMVN ''y'' f_loc k (Some y)]"
  using assms
  by (auto simp: DKL_model_def bind_eq_Some_conv numpyro_sample_scalar jnp_zeros_nat
      split: prod.splits)


lemma infer_num_tasks_Some:
  assumes "infer_num_tasks self = Some self1"
  shows "self1 = self\<lparr>mt_num_tasks := mt_num_tasks self1\<rparr>"
    and "mt_shared_input self \<or> mt_num_tasks self \<noteq> None \<Longrightarrow> self1 = self"
    and "\<not> mt_shared_input self \<and> mt_num_tasks self = None \<Longrightarrow>
           \<exists>Xt c. mt_X_train self = Some Xt \<and> num_unique_last_column Xt = Some c \<and>
                  mt_num_tasks self1 = Some c"
  using assms
  by (auto simp: infer_num_tasks_def bind_eq_Some_conv split: if_splits)

lemma default_rank_Some:
  assumes "default_rank self1 = Some self2"
  shows "self2 = self1\<lparr>mt_rank := mt_rank self2\<rparr>"
    and "mt_rank self1 \<noteq> None \<Longrightarrow> self2 = self1"
    and "mt_rank self1 = None \<Longrightarrow>
           \<exists>t. mt_num_tasks self1 = Some t \<and> mt_rank self2 = Some (t - 1)"
  using assms
  by (auto simp: default_rank_def bind_eq_Some_conv split: if_splits)

lemma MultiTaskGP_model_SomeE:
  assumes "MultiTaskGP_model J eng self X y kw = (self', Some tr)"
  obtains f0 self1 dkp tr_d tkp tr_t noise tr_n k f_loc tr_m
  where "init_f_loc self X = Some f0"
    and "infer_num_tasks self = Some self1"
    and "default_rank self1 = Some self'"
    and "(case mt_data_kernel_prior self' of Some p \<Rightarrow> p eng
          | None \<Rightarrow> sample_kernel_params eng self') = Some (dkp, tr_d)"
    and "(case mt_task_kernel_prior self' of Some p \<Rightarrow> p eng
          | None \<Rightarrow> sample_task_kernel_params eng self') = Some (tkp, tr_t)"
    and "(case mt_noise_prior self' of Some p \<Rightarrow> p eng
          | None \<Rightarrow> default_noise eng self') = Some (noise, tr_n)"
    and "mt_kernel self' X X (dkp ++ tkp) noise kw = Some k"
    and "prior_mean J eng (mt_mean_fn self') (mt_mean_fn_prior self') X f0 = Some (f_loc, tr_m)"
    and "tr = tr_d @ tr_t @ tr_n @ tr_m @ [SampleMVN ''y'' f_loc k y]"
proof -
  from assms obtain f0 self1 where
    a: "init_f_loc self X = Some f0" "infer_num_tasks self = Some self1"
      "default_rank self1 = Some self'"
    and b: "do {
       (data_kernel_params, tr_data) \<leftarrow>
         (case mt_data_kernel_prior self' of Some p \<Rightarrow> p eng
          | None \<Rightarrow> sample_kernel_params eng self');
       (task_kernel_params, tr_task) \<leftarrow>
         (case mt_task_kernel_prior self' of Some p \<Rightarrow> p eng
          | None \<Rightarrow> sample_task_kernel_params eng self');
       let kernel_params = data_kernel_params ++ task_kernel_params;
       (noise, tr_noise) \<leftarrow>
         (case mt_noise_prior self' of Some p \<Rightarrow> p eng | None \<Rightarrow> default_noise eng self');
       k \<leftarrow> mt_kernel self' X X kernel_params noise kw;
       (f_loc, tr_mean) \<leftarrow>
         prior_mean J eng (mt_mean_fn self') (mt_mean_fn_prior self') X f0;
       Some (tr_data @ tr_task @ tr_noise @ tr_mean @ [SampleMVN ''y'' f_loc k y])
     } = Some tr"
    by (auto simp: MultiTaskGP_model_def split: option.splits)
  from b that [OF a] show ?thesis
    unfolding Let_def bind_eq_Some_conv split_paired_Ex case_prod_conv option.inject
    by blast
qed

lemma model_keeps_fields:
  assumes "infer_num_tasks self = Some self1" and "default_rank self1 = Some self2"
  shows "mt_shared_input self2 = mt_shared_input self"
    and "mt_data_kernel_prior self2 = mt_data_kernel_prior self"
    and "mt_task_kernel_prior self2 = mt_task_kernel_prior self"
    and "mt_noise_prior self2 = mt_noise_prior self"
    and "mt_mean_fn self2 = mt_mean_fn self"
    and "mt_mean_fn_prior self2 = mt_mean_fn_prior self"
    and "mt_kernel self2 = mt_kernel self"
    and "mt_num_latents self2 = mt_num_latents self"
    and "mt_X_train self2 = mt_X_train self"
    and "mt_num_tasks self2 = mt_num_tasks self1"
    and "self2 = self\<lparr>mt_num_tasks := mt_num_tasks self2, mt_rank := mt_rank self2\<rparr>"
proof -
  have 1: "self1 = self\<lparr>mt_num_tasks := mt_num_tasks self1\<rparr>"
    by (rule infer_num_tasks_Some(1) [OF assms(1)])
  have 2: "self2 = self1\<lparr>mt_rank := mt_rank self2\<rparr>"
    by (rule default_rank_Some(1) [OF assms(2)])
  have 3: "self2 = self\<lparr>mt_num_tasks := mt_num_tasks self1, mt_rank := mt_rank self2\<rparr>"
    by (subst 2, subst 1) simp
  show "mt_shared_input self2 = mt_shared_input self" by (subst 3) simp
  show "mt_data_kernel_prior self2 = mt_data_kernel_prior self" by (subst 3) simp
  show "mt_task_kernel_prior self2 = mt_task_kernel_prior self" by (subst 3) simp
  show "mt_noise_prior self2 = mt_noise_prior self" by (subst 3) simp
  show "mt_mean_fn self2 = mt_mean_fn self" by (subst 3) simp
  show "mt_mean_fn_prior self2 = mt_mean_fn_prior self" by (subst 3) simp
  show "mt_kernel self2 = mt_kernel self" by (subst 3) simp
  show "mt_num_latents self2 = mt_num_latents self" by (subst 3) simp
  show "mt_X_train self2 = mt_X_train self" by (subst 3) simp
  show 4: "mt_num_tasks self2 = mt_num_tasks self1" by (subst 3) simp
  show "self2 = self\<lparr>mt_num_tasks := mt_num_tasks self2, mt_rank := mt_rank self2\<rparr>"
    by (simp only: 4) (rule 3)
qed

lemma model_configured_fixed:
  assumes "mt_rank self \<noteq> None" and "mt_shared_input self \<or> mt_num_tasks self \<noteq> None"
  shows "fst (MultiTaskGP_model J eng self X y kw) = self"
  using assms
  by (auto simp: MultiTaskGP_model_def infer_num_tasks_def default_rank_def split: option.splits)

subsection \<open>Evaluating the models on the examples\<close>

lemma ex_bnn_prior:
  "ex_bnn_prior ex_engine =
     Some ([''w1'' \<mapsto> Tensor [1, 1] [0], ''b1'' \<mapsto> Tensor [1] [0],
            ''w2'' \<mapsto> Tensor [1, 1] [0], ''b2'' \<mapsto> Tensor [1] [0],
            ''w3'' \<mapsto> Tensor [1, 1] [0], ''b3'' \<mapsto> Tensor [1] [0]],
           [ex_weight_site ''w1'', ex_bias_site ''b1'', ex_weight_site ''w2'', ex_bias_site ''b2'',
            ex_weight_site ''w3'', ex_bias_site ''b3''])"
  by (simp add: ex_bnn_prior_def sample_weights_def sample_biases_def jnp_zeros_def jnp_ones_def
      to_dims_def numpyro_sample_def ex_engine_def Let_def broadcast_shapes_def
      ex_weight_site_def ex_bias_site_def)

lemma ex_dkl_model:
  "DKL_model ideal_lib ex_get_kernel ex_default_kernel_prior ex_engine ex_dkl
     (Tensor [1, 1] [5]) (Tensor [1] [4]) = Some ex_dkl_trace"
  apply (simp add: DKL_model_def ex_dkl_def ex_bnn_prior)
  apply (simp add: jnp_zeros_def to_dims_def numpyro_sample_def ex_engine_def Let_def
    bnn_def ex_simps prior_mean_def ex_default_kernel_prior_def ex_dkl_trace_def)
  done

lemma ex_mt_init:
  "MultiTaskGP_init ex_ExactGP_init ex_LCMKernel 1 (KernelName ''RBF'') None True (Some 2) None
     None None None None None False [] = Inr ex_mt"
  by (simp add: MultiTaskGP_init_def ex_ExactGP_init_def ex_LCMKernel_def ex_mt_def)

lemma upt_evals: "[0..<2] = [0, 1]" "[0..<4] = [0, 1, 2, 3]" "[0..<6] = [0, 1, 2, 3, 4, 5]"
  by (simp_all add: upt_rec)

lemma ex_mt_data:
  "sample_kernel_params ex_engine ex_mt_configured = Some (ex_mt_kparams, ex_mt_data_trace)"
  by (simp add: sample_kernel_params_def ex_mt_def ex_mt_configured_def plate_def numpyro_sample_def Let_def
      scalar_def broadcast_shapes_def jnp_ones_def to_dims_def squeeze_def ex_engine_def upt_evals
      ex_mt_kparams_def ex_mt_data_trace_def eval_nat_numeral)





lemma replicate_evals:
  "replicate 2 x = [x, x]" "replicate 3 x = [x, x, x]" "replicate 4 x = [x, x, x, x]"
  by (simp_all add: eval_nat_numeral)

lemma ex_mt2_column:
  "last_column (Tensor [3, 2] [0, 0, 1, 1, 2, 0]) = Some [0, 1, 0]"
  by (simp add: last_column_def upt_evals)

lemma ex_mt2_config:
  "init_f_loc ex_mt2 (Tensor [3, 2] [0, 0, 1, 1, 2, 0]) = Some (Tensor [3] [0, 0, 0])"
  "infer_num_tasks ex_mt2 = Some (ex_mt2\<lparr>mt_num_tasks := Some 2\<rparr>)"
  "default_rank (ex_mt2\<lparr>mt_num_tasks := Some 2\<rparr>) =
     Some (ex_mt2\<lparr>mt_num_tasks := Some 2, mt_rank := Some 1\<rparr>)"
  by (simp_all add: init_f_loc_def infer_num_tasks_def default_rank_def ex_mt2_def shape0_def
      jnp_zeros_def to_dims_def replicate_evals num_unique_last_column_def ex_mt2_column)

lemma ex_mt2_model:
  "fst (MultiTaskGP_model ideal_lib ex_engine ex_mt2 (Tensor [3, 2] [0, 0, 1, 1, 2, 0]) None []) =
     ex_mt2\<lparr>mt_num_tasks := Some 2, mt_rank := Some 1\<rparr>"
  "snd (MultiTaskGP_model ideal_lib ex_engine ex_mt2 (Tensor [3, 2] [0, 0, 1, 1, 2, 0]) None [])
     \<noteq> None"
   apply (simp only: MultiTaskGP_model_def ex_mt2_config option.case fst_conv)
  apply (simp only: MultiTaskGP_model_def ex_mt2_config option.case snd_conv)
  apply (simp add: ex_mt2_def sample_kernel_params_def sample_task_kernel_params_def
      default_noise_def plate_def numpyro_sample_def Let_def scalar_def broadcast_shapes_def
      jnp_ones_def jnp_zeros_def to_dims_def ex_lcm_def shape0_def prior_mean_def
      scalar_times_def replicate_evals upt_evals)
  done


subsection \<open>The network\<close>

text \<open>
  C4. For every input and every parameter dictionary holding w1, b1, w2, b2, w3, b3, the
  default network returns matmul(tanh(matmul(tanh(matmul(X, w1) + b1), w2) + b2), w3) + b3;
  it raises exactly when one of these library operations raises.
\<close>

theorem bnn_is_mlp_forward:
  assumes "params ''w1'' = Some w1" and "params ''b1'' = Some b1"
    and "params ''w2'' = Some w2" and "params ''b2'' = Some b2"
    and "params ''w3'' = Some w3" and "params ''b3'' = Some b3"
  shows "bnn J X params = mlp_forward J X w1 b1 w2 b2 w3 b3"
  using assms by (simp add: bnn_def mlp_forward_def Let_def)



theorem bnn_is_mlp_forward_witness:
  "ex_params ''w1'' = Some (Tensor [1, 1] [0]) \<and> ex_params ''b1'' = Some (Tensor [1] [0]) \<and>
   ex_params ''w2'' = Some (Tensor [1, 1] [1]) \<and> ex_params ''b2'' = Some (Tensor [1] [0]) \<and>
   ex_params ''w3'' = Some (Tensor [1, 1] [2]) \<and> ex_params ''b3'' = Some (Tensor [1] [1]) \<and>
   mlp_forward ideal_lib (Tensor [1, 1] [5]) (Tensor [1, 1] [0]) (Tensor [1] [0])
     (Tensor [1, 1] [1]) (Tensor [1] [0]) (Tensor [1, 1] [2]) (Tensor [1] [1]) =
   Some (Tensor [1, 1] [1])"
proof -
  have k: "ex_params ''w1'' = Some (Tensor [1, 1] [0])" "ex_params ''b1'' = Some (Tensor [1] [0])"
    "ex_params ''w2'' = Some (Tensor [1, 1] [1])" "ex_params ''b2'' = Some (Tensor [1] [0])"
    "ex_params ''w3'' = Some (Tensor [1, 1] [2])" "ex_params ''b3'' = Some (Tensor [1] [1])"
    by (simp_all add: ex_params_def)
  have "bnn ideal_lib (Tensor [1, 1] [5]) ex_params = Some (Tensor [1, 1] [1])"
    using ex_bnn [of 5] by simp
  with bnn_is_mlp_forward [OF k, of ideal_lib "Tensor [1, 1] [5]"] k show ?thesis
    by simp
qed

subsection \<open>The predictive distribution\<close>

text \<open>
  C1. For a fitted DKL object and a sample \<open>params\<close> holding the network weights and
  \<open>noise\<close>, get_mvn_posterior returns the closed-form predictive mean and covariance
  computed on the embeddings of the training and the new inputs: the train-train kernel
  takes the sampled noise, the test-train kernel takes jitter 0, the test-test kernel takes
  noise * (1 - noiseless), the train-train kernel matrix is inverted by the library's
  matrix inverse, and the mean-function terms are present only when a mean function is
  set. The call raises exactly when the closed form does.
\<close>

theorem get_mvn_posterior_closed_form:
  assumes "deref h (dkl_X_train self) = Some X_tr"
    and "deref h (dkl_y_train self) = Some y_tr"
    and "params ''noise'' = Some noise"
    and "get_kernel (dkl_kernel self) = Some K"
  shows "snd (get_mvn_posterior J get_kernel self h X_new params noiseless) =
         gp_posterior J K (dkl_bnn self) (dkl_gp_mean_fn self) (mean_args self params)
           X_tr y_tr X_new params noise noiseless"
  using assms
  apply (simp add: get_mvn_posterior_def gp_posterior_def posterior_mean_def posterior_cov_def
      isub_def deref_fresh split: option.splits prod.splits Option.bind_splits)
  apply (auto simp: deref_fresh deref_def split: option.splits prod.splits Option.bind_splits)
  done

theorem get_mvn_posterior_closed_form_witness:
  "deref ex_store (dkl_X_train ex_dkl) = Some (Tensor [1, 1] [5]) \<and>
   deref ex_store (dkl_y_train ex_dkl) = Some (Tensor [1] [4]) \<and>
   ex_params ''noise'' = Some (scalar 1) \<and>
   ex_get_kernel (dkl_kernel ex_dkl) = Some ex_kernel \<and>
   gp_posterior ideal_lib ex_kernel (dkl_bnn ex_dkl) (dkl_gp_mean_fn ex_dkl)
     (mean_args ex_dkl ex_params) (Tensor [1, 1] [5]) (Tensor [1] [4]) (Tensor [1, 1] [7])
     ex_params (scalar 1) False =
   Some (Tensor [1] [5 / 2], Tensor [1, 1] [3 / 2])"
proof -
  have "snd (get_mvn_posterior ideal_lib ex_get_kernel ex_dkl ex_store (Tensor [1, 1] [7])
            ex_params False) =
        gp_posterior ideal_lib ex_kernel (dkl_bnn ex_dkl) (dkl_gp_mean_fn ex_dkl)
          (mean_args ex_dkl ex_params) (Tensor [1, 1] [5]) (Tensor [1] [4]) (Tensor [1, 1] [7])
          ex_params (scalar 1) False"
    by (rule get_mvn_posterior_closed_form) (rule ex_trained ex_noise)+
  then have "gp_posterior ideal_lib ex_kernel (dkl_bnn ex_dkl) (dkl_gp_mean_fn ex_dkl)
          (mean_args ex_dkl ex_params) (Tensor [1, 1] [5]) (Tensor [1] [4]) (Tensor [1, 1] [7])
          ex_params (scalar 1) False = Some (Tensor [1] [5 / 2], Tensor [1, 1] [3 / 2])"
    by (simp only: ex_post_noisy snd_conv)
  with ex_trained ex_noise show ?thesis
    by (simp only: simp_thms)
qed

text \<open>
  C8. Two calls that differ only in the flag \<open>noiseless\<close> and both return, return the same
  mean; only the covariance may differ.
\<close>

theorem mean_independent_of_noiseless:
  assumes "snd (get_mvn_posterior J get_kernel self h X_new params True) = Some (mean1, cov1)"
    and "snd (get_mvn_posterior J get_kernel self h X_new params False) = Some (mean2, cov2)"
  shows "mean1 = mean2"
  using assms
  by (auto simp: get_mvn_posterior_def bind_eq_Some_conv split: option.splits prod.splits)

theorem mean_independent_of_noiseless_witness:
  "snd (get_mvn_posterior ideal_lib ex_get_kernel ex_dkl ex_store (Tensor [1, 1] [7]) ex_params True)
     = Some (Tensor [1] [5 / 2], Tensor [1, 1] [1 / 2]) \<and>
   snd (get_mvn_posterior ideal_lib ex_get_kernel ex_dkl ex_store (Tensor [1, 1] [7]) ex_params False)
     = Some (Tensor [1] [5 / 2], Tensor [1, 1] [3 / 2]) \<and>
   Tensor [1] [5 / 2] = Tensor [1] [5 / 2 :: real] \<and>
   Tensor [1, 1] [1 / 2] \<noteq> Tensor [1, 1] [3 / 2 :: real]"
proof -
  have a: "snd (get_mvn_posterior ideal_lib ex_get_kernel ex_dkl ex_store (Tensor [1, 1] [7])
              ex_params True) = Some (Tensor [1] [5 / 2], Tensor [1, 1] [1 / 2])"
    by (simp only: ex_post_noiseless snd_conv)
  have b: "snd (get_mvn_posterior ideal_lib ex_get_kernel ex_dkl ex_store (Tensor [1, 1] [7])
              ex_params False) = Some (Tensor [1] [5 / 2], Tensor [1, 1] [3 / 2])"
    by (simp only: ex_post_noisy snd_conv)
  from mean_independent_of_noiseless [OF a b] a b show ?thesis
    by simp
qed

text \<open>
  C10. get_mvn_posterior leaves the stored training data unchanged, also when a mean
  function is set: the arrays that the fields X_train and y_train refer to have the same
  value after the call as before it (the method assigns no field, and the subtraction
  binds the local name to a new array).
\<close>

theorem get_mvn_posterior_keeps_training_data:
  assumes "deref h (dkl_X_train self) = Some X_tr"
    and "deref h (dkl_y_train self) = Some y_tr"
  shows "deref (fst (get_mvn_posterior J get_kernel self h X_new params noiseless))
           (dkl_X_train self) = Some X_tr \<and>
         deref (fst (get_mvn_posterior J get_kernel self h X_new params noiseless))
           (dkl_y_train self) = Some y_tr"
proof -
  obtain ext where "fst (get_mvn_posterior J get_kernel self h X_new params noiseless) = h @ ext"
    using get_mvn_posterior_extends by blast
  with assms show ?thesis
    by (simp add: deref_append)
qed

theorem get_mvn_posterior_keeps_training_data_witness:
  "deref ex_store (dkl_X_train ex_dkl) = Some (Tensor [1, 1] [5]) \<and>
   deref ex_store (dkl_y_train ex_dkl) = Some (Tensor [1] [4]) \<and>
   dkl_gp_mean_fn ex_dkl \<noteq> None \<and>
   fst (get_mvn_posterior ideal_lib ex_get_kernel ex_dkl ex_store (Tensor [1, 1] [7]) ex_params False)
     = [Tensor [1, 1] [5], Tensor [1] [4], Tensor [1] [3]] \<and>
   deref [Tensor [1, 1] [5], Tensor [1] [4], Tensor [1] [3]] (dkl_X_train ex_dkl)
     = Some (Tensor [1, 1] [5]) \<and>
   deref [Tensor [1, 1] [5], Tensor [1] [4], Tensor [1] [3]] (dkl_y_train ex_dkl)
     = Some (Tensor [1] [4])"
proof -
  have s: "fst (get_mvn_posterior ideal_lib ex_get_kernel ex_dkl ex_store (Tensor [1, 1] [7])
              ex_params False) = [Tensor [1, 1] [5], Tensor [1] [4], Tensor [1] [3]]"
    by (simp only: ex_post_noisy fst_conv) (simp add: ex_store_def)
  have m: "dkl_gp_mean_fn ex_dkl \<noteq> None"
    by (simp add: ex_dkl_def)
  from get_mvn_posterior_keeps_training_data [OF ex_trained(1) ex_trained(2),
      of ideal_lib ex_get_kernel "Tensor [1, 1] [7]" ex_params False]
  have "deref [Tensor [1, 1] [5], Tensor [1] [4], Tensor [1] [3]] (dkl_X_train ex_dkl)
          = Some (Tensor [1, 1] [5]) \<and>
        deref [Tensor [1, 1] [5], Tensor [1] [4], Tensor [1] [3]] (dkl_y_train ex_dkl)
          = Some (Tensor [1] [4])"
    by (simp only: s)
  with s m ex_trained show ?thesis
    by (simp only: simp_thms)
qed


subsection \<open>The probabilistic models\<close>

text \<open>
  C2. In a run of DKL.model that returns, the covariance of the likelihood of y is the kernel
  evaluated on the embedding z = bnn(X, bnn_params), passed through latent_prior when one is
  set, with the sampled kernel parameters and noise; y is observed under
  MultivariateNormal(f_loc, k), where f_loc is the zero vector of length z.shape[0] unless a
  mean function is set, in which case its squeezed value on z is added.
\<close>

theorem DKL_model_likelihood:
  assumes "DKL_model J get_kernel default_kernel_prior eng self X y = Some tr"
  shows "\<exists>bnn_params tr_bnn z n z' kernel_params noise K k f_loc.
     dkl_bnn_prior self eng = Some (bnn_params, tr_bnn) \<and>
     dkl_bnn self X bnn_params = Some z \<and>
     (case dkl_latent_prior self of
        None \<Rightarrow> z' = z
      | Some lp \<Rightarrow> \<exists>tr_latent. lp eng z = Some (z', tr_latent)) \<and>
     get_kernel (dkl_kernel self) = Some K \<and>
     K z' z' kernel_params (Some noise) None = Some k \<and>
     shape0 z = Some n \<and>
     (case dkl_gp_mean_fn self of
        None \<Rightarrow> f_loc = Tensor [n] (replicate n 0)
      | Some mean \<Rightarrow> \<exists>arg m. mean z arg = Some m \<and>
          jnp_add J (Tensor [n] (replicate n 0)) (squeeze m) = Some f_loc) \<and>
     last tr = SampleMVN ''y'' f_loc k (Some y)"
proof -
  from assms obtain bnn_params tr_bnn z n f_loc tr_mean z' tr_latent kernel_params tr_kernel
      noise K k
    where a: "dkl_bnn_prior self eng = Some (bnn_params, tr_bnn)"
      "dkl_bnn self X bnn_params = Some z" "shape0 z = Some n"
      and m: "prior_mean J eng (dkl_gp_mean_fn self) (dkl_gp_mean_fn_prior self) z
           (Tensor [n] (replicate n 0)) = Some (f_loc, tr_mean)"
      and l: "(case dkl_latent_prior self of None \<Rightarrow> Some (z, []) | Some lp \<Rightarrow> lp eng z) =
           Some (z', tr_latent)"
      and k: "get_kernel (dkl_kernel self) = Some K"
        "K z' z' kernel_params (Some noise) None = Some k"
      and tr: "tr = tr_bnn @ tr_mean @ tr_latent @ tr_kernel @
              [Sample ''noise'' (LogNormal (scalar 0) (scalar 1)) noise,
               SampleMVN ''y'' f_loc k (Some y)]"
    by (rule DKL_model_SomeE)
  have l': "case dkl_latent_prior self of
        None \<Rightarrow> z' = z
      | Some lp \<Rightarrow> \<exists>tr_latent. lp eng z = Some (z', tr_latent)"
    using l by (auto split: option.splits)
  have "last tr = SampleMVN ''y'' f_loc k (Some y)"
    by (simp add: tr)
  with a prior_mean_Some [OF m] l' k show ?thesis
    by blast
qed

theorem DKL_model_likelihood_witness:
  "DKL_model ideal_lib ex_get_kernel ex_default_kernel_prior ex_engine ex_dkl
     (Tensor [1, 1] [5]) (Tensor [1] [4]) = Some ex_dkl_trace \<and>
   (\<exists>bnn_params tr_bnn z n z' kernel_params noise K k f_loc.
     dkl_bnn_prior ex_dkl ex_engine = Some (bnn_params, tr_bnn) \<and>
     dkl_bnn ex_dkl (Tensor [1, 1] [5]) bnn_params = Some z \<and>
     (case dkl_latent_prior ex_dkl of
        None \<Rightarrow> z' = z
      | Some lp \<Rightarrow> \<exists>tr_latent. lp ex_engine z = Some (z', tr_latent)) \<and>
     ex_get_kernel (dkl_kernel ex_dkl) = Some K \<and>
     K z' z' kernel_params (Some noise) None = Some k \<and>
     shape0 z = Some n \<and>
     (case dkl_gp_mean_fn ex_dkl of
        None \<Rightarrow> f_loc = Tensor [n] (replicate n 0)
      | Some mean \<Rightarrow> \<exists>arg m. mean z arg = Some m \<and>
          jnp_add ideal_lib (Tensor [n] (replicate n 0)) (squeeze m) = Some f_loc) \<and>
     last ex_dkl_trace = SampleMVN ''y'' f_loc k (Some (Tensor [1] [4])))"
  using DKL_model_likelihood [OF ex_dkl_model] ex_dkl_model
  by (rule conjI [rotated])




text \<open>
  What the two models do with the priors stored in the object: each hyperparameter group
  comes from the stored callable when there is one and from the default prior otherwise.
  The noise of DKL is always a scalar LogNormal(0, 1) sample; the default noise of
  MultiTaskGP is a LogNormal(0, 1) sample of shape (num_tasks,). The constructor of
  MultiTaskGP stores data_kernel_prior and task_kernel_prior as given.
\<close>

lemma model_uses_stored_priors:
  "(DKL_model J get_kernel default_kernel_prior eng self X y = Some tr \<longrightarrow>
      (\<exists>kernel_params tr_kernel tr0 z f_loc K k noise.
         (case dkl_kernel_prior self of
            Some kp \<Rightarrow> kp eng
          | None \<Rightarrow> default_kernel_prior self eng) = Some (kernel_params, tr_kernel) \<and>
         shape noise = [] \<and>
         get_kernel (dkl_kernel self) = Some K \<and>
         K z z kernel_params (Some noise) None = Some k \<and>
         tr = tr0 @ tr_kernel @
                [Sample ''noise'' (LogNormal (scalar 0) (scalar 1)) noise,
                 SampleMVN ''y'' f_loc k (Some y)])) \<and>
   (MultiTaskGP_model J eng mself X' y' kw = (mself', Some tr') \<longrightarrow>
      (\<exists>data_kernel_params tr_data task_kernel_params tr_task noise tr_noise tr_mean k f_loc.
         (case mt_data_kernel_prior mself of
            Some p \<Rightarrow> p eng
          | None \<Rightarrow> sample_kernel_params eng mself') = Some (data_kernel_params, tr_data) \<and>
         (case mt_task_kernel_prior mself of
            Some p \<Rightarrow> p eng
          | None \<Rightarrow> sample_task_kernel_params eng mself') = Some (task_kernel_params, tr_task) \<and>
         (case mt_noise_prior mself of
            Some p \<Rightarrow> p eng = Some (noise, tr_noise)
          | None \<Rightarrow>
              \<exists>t. mt_num_tasks mself' = Some t \<and> 0 \<le> t \<and> shape noise = [nat t] \<and>
                tr_noise = [Sample ''noise''
                    (ToEvent 1 (LogNormal (Tensor [nat t] (replicate (nat t) 0))
                                          (Tensor [nat t] (replicate (nat t) 1)))) noise]) \<and>
         mt_kernel mself X' X' (data_kernel_params ++ task_kernel_params) noise kw = Some k \<and>
         tr' = tr_data @ tr_task @ tr_noise @ tr_mean @ [SampleMVN ''y'' f_loc k y'])) \<and>
   (MultiTaskGP_init ExactGP_init LCMKernel input_dim data_kernel num_latents shared_input_space
        num_tasks rank mean_fn data_kernel_prior mean_fn_prior noise_prior task_kernel_prior
        output_scale kw' = Inr m \<longrightarrow>
      mt_data_kernel_prior m = data_kernel_prior \<and> mt_task_kernel_prior m = task_kernel_prior)"
proof (intro conjI impI)
  assume "DKL_model J get_kernel default_kernel_prior eng self X y = Some tr"
  then obtain bnn_params tr_bnn z n f_loc tr_mean z' tr_latent kernel_params tr_kernel noise K k
    where kp: "(case dkl_kernel_prior self of Some kp \<Rightarrow> kp eng
                | None \<Rightarrow> default_kernel_prior self eng) = Some (kernel_params, tr_kernel)"
      and n: "noise = Tensor [] [eng ''noise'' 0]"
      and k: "get_kernel (dkl_kernel self) = Some K"
        "K z' z' kernel_params (Some noise) None = Some k"
      and tr: "tr = tr_bnn @ tr_mean @ tr_latent @ tr_kernel @
              [Sample ''noise'' (LogNormal (scalar 0) (scalar 1)) noise,
               SampleMVN ''y'' f_loc k (Some y)]"
    by (rule DKL_model_SomeE)
  have s: "shape noise = []"
    by (simp add: n)
  have "tr = (tr_bnn @ tr_mean @ tr_latent) @ tr_kernel @
              [Sample ''noise'' (LogNormal (scalar 0) (scalar 1)) noise,
               SampleMVN ''y'' f_loc k (Some y)]"
    by (simp add: tr)
  with kp s k show "\<exists>kernel_params tr_kernel tr0 z f_loc K k noise.
         (case dkl_kernel_prior self of
            Some kp \<Rightarrow> kp eng
          | None \<Rightarrow> default_kernel_prior self eng) = Some (kernel_params, tr_kernel) \<and>
         shape noise = [] \<and>
         get_kernel (dkl_kernel self) = Some K \<and>
         K z z kernel_params (Some noise) None = Some k \<and>
         tr = tr0 @ tr_kernel @
                [Sample ''noise'' (LogNormal (scalar 0) (scalar 1)) noise,
                 SampleMVN ''y'' f_loc k (Some y)]"
    by blast
next
  assume "MultiTaskGP_model J eng mself X' y' kw = (mself', Some tr')"
  then obtain f0 self1 dkp tr_d tkp tr_t noise tr_n k f_loc tr_m
    where c: "infer_num_tasks mself = Some self1" "default_rank self1 = Some mself'"
      and d: "(case mt_data_kernel_prior mself' of Some p \<Rightarrow> p eng
               | None \<Rightarrow> sample_kernel_params eng mself') = Some (dkp, tr_d)"
      and t: "(case mt_task_kernel_prior mself' of Some p \<Rightarrow> p eng
               | None \<Rightarrow> sample_task_kernel_params eng mself') = Some (tkp, tr_t)"
      and n: "(case mt_noise_prior mself' of Some p \<Rightarrow> p eng
               | None \<Rightarrow> default_noise eng mself') = Some (noise, tr_n)"
      and k: "mt_kernel mself' X' X' (dkp ++ tkp) noise kw = Some k"
      and tr: "tr' = tr_d @ tr_t @ tr_n @ tr_m @ [SampleMVN ''y'' f_loc k y']"
    by (rule MultiTaskGP_model_SomeE)
  note keep = model_keeps_fields(1-9) [OF c]
  have n': "case mt_noise_prior mself of
            Some p \<Rightarrow> p eng = Some (noise, tr_n)
          | None \<Rightarrow>
              \<exists>t. mt_num_tasks mself' = Some t \<and> 0 \<le> t \<and> shape noise = [nat t] \<and>
                tr_n = [Sample ''noise''
                    (ToEvent 1 (LogNormal (Tensor [nat t] (replicate (nat t) 0))
                                          (Tensor [nat t] (replicate (nat t) 1)))) noise]"
    using n default_noise_Some [of eng mself' noise tr_n]
    by (simp add: keep split: option.splits)
  from d t n' k tr
  show "\<exists>data_kernel_params tr_data task_kernel_params tr_task noise tr_noise tr_mean k f_loc.
         (case mt_data_kernel_prior mself of
            Some p \<Rightarrow> p eng
          | None \<Rightarrow> sample_kernel_params eng mself') = Some (data_kernel_params, tr_data) \<and>
         (case mt_task_kernel_prior mself of
            Some p \<Rightarrow> p eng
          | None \<Rightarrow> sample_task_kernel_params eng mself') = Some (task_kernel_params, tr_task) \<and>
         (case mt_noise_prior mself of
            Some p \<Rightarrow> p eng = Some (noise, tr_noise)
          | None \<Rightarrow>
              \<exists>t. mt_num_tasks mself' = Some t \<and> 0 \<le> t \<and> shape noise = [nat t] \<and>
                tr_noise = [Sample ''noise''
                    (ToEvent 1 (LogNormal (Tensor [nat t] (replicate (nat t) 0))
                                          (Tensor [nat t] (replicate (nat t) 1)))) noise]) \<and>
         mt_kernel mself X' X' (data_kernel_params ++ task_kernel_params) noise kw = Some k \<and>
         tr' = tr_data @ tr_task @ tr_noise @ tr_mean @ [SampleMVN ''y'' f_loc k y']"
    unfolding keep by blast
next
  assume "MultiTaskGP_init ExactGP_init LCMKernel input_dim data_kernel num_latents
        shared_input_space num_tasks rank mean_fn data_kernel_prior mean_fn_prior noise_prior
        task_kernel_prior output_scale kw' = Inr m"
  then show "mt_data_kernel_prior m = data_kernel_prior"
    by (auto simp: MultiTaskGP_init_def split: sum.splits if_splits)
next
  assume "MultiTaskGP_init ExactGP_init LCMKernel input_dim data_kernel num_latents
        shared_input_space num_tasks rank mean_fn data_kernel_prior mean_fn_prior noise_prior
        task_kernel_prior output_scale kw' = Inr m"
  then show "mt_task_kernel_prior m = task_kernel_prior"
    by (auto simp: MultiTaskGP_init_def split: sum.splits if_splits)
qed

text \<open>
  What the constructor of DKL stores: the call at dkl.py line 36 passes
  \<^verbatim>\<open>kernel_prior\<close> as third positional argument, which the base class binds to
  \<^verbatim>\<open>mean_fn\<close>, so the attribute \<^verbatim>\<open>kernel_prior\<close> of the object is None whatever was given.
\<close>

lemma DKL_init_drops_kernel_prior:
  "\<exists>d. DKL_init J ex_ExactGP_init_dkl input_dim z_dim kernel_name kernel_prior mean_fn'
          mean_fn_prior' bnn_fn bnn_fn_prior latent_prior = Inr d \<and>
       dkl_kernel_prior d = None"
  by (simp add: DKL_init_def ex_ExactGP_init_dkl_def)

lemma ex_dkl_built_init:
  "DKL_init ideal_lib ex_ExactGP_init_dkl 1 1 ''RBF'' (Some ex_user_kernel_prior) (Some ex_mean)
     None None (Some ex_bnn_prior) None = Inr ex_dkl_built"
  by (simp add: DKL_init_def ex_ExactGP_init_dkl_def ex_dkl_built_def)

lemma ex_dkl_built_model:
  "DKL_model ideal_lib ex_get_kernel ex_default_kernel_prior ex_engine ex_dkl_built
     (Tensor [1, 1] [5]) (Tensor [1] [4]) = Some ex_dkl_trace"
  apply (simp add: DKL_model_def ex_dkl_built_def ex_bnn_prior)
  apply (simp add: jnp_zeros_def to_dims_def numpyro_sample_def ex_engine_def Let_def
    bnn_def ex_simps prior_mean_def ex_default_kernel_prior_def ex_dkl_trace_def)
  done

lemma ex_user_prior_run:
  "ex_user_kernel_prior ex_engine = Some ([''k_length'' \<mapsto> Tensor [] [0]], [ex_user_site])"
  by (simp add: ex_user_kernel_prior_def numpyro_sample_scalar ex_engine_def ex_user_site_def)


text \<open>
  C6. The claim says that a kernel_prior given at construction is the callable from which
  DKL.model obtains the kernel parameters. The code does not do this. At the input
  DKL(input_dim=1, z_dim=1, kernel='RBF', kernel_prior=f), with f a prior whose length scale
  is centred at 2, the constructed object has kernel_prior None, and the trace of model holds
  the site of the default prior for k_length and not the site that f records.
\<close>

theorem kernel_prior_given_at_construction_is_not_called:
  "DKL_init ideal_lib ex_ExactGP_init_dkl 1 1 ''RBF'' (Some ex_user_kernel_prior) (Some ex_mean)
     None None (Some ex_bnn_prior) None = Inr ex_dkl_built \<and>
   dkl_kernel_prior ex_dkl_built = None \<and>
   ex_user_kernel_prior ex_engine = Some ([''k_length'' \<mapsto> Tensor [] [0]], [ex_user_site]) \<and>
   DKL_model ideal_lib ex_get_kernel ex_default_kernel_prior ex_engine ex_dkl_built
     (Tensor [1, 1] [5]) (Tensor [1] [4]) = Some ex_dkl_trace \<and>
   ex_user_site \<notin> set ex_dkl_trace \<and>
   Sample ''k_length'' (LogNormal (scalar 0) (scalar 1)) (Tensor [] [0]) \<in> set ex_dkl_trace"
proof -
  have 1: "dkl_kernel_prior ex_dkl_built = None"
    by (simp add: ex_dkl_built_def)
  have 2: "ex_user_site \<notin> set ex_dkl_trace"
    by (simp add: ex_dkl_trace_def ex_user_site_def ex_weight_site_def ex_bias_site_def scalar_def)
  have 3: "Sample ''k_length'' (LogNormal (scalar 0) (scalar 1)) (Tensor [] [0]) \<in> set ex_dkl_trace"
    by (simp add: ex_dkl_trace_def)
  from ex_dkl_built_init 1 ex_user_prior_run ex_dkl_built_model 2 3 show ?thesis
    by (intro conjI)
qed

text \<open>
  C9. MultiTaskGP completes its configuration by assignment to the object. A constructor
  call with num_latents None that returns has set num_latents to num_tasks. A call of model
  that returns has set rank to num_tasks - 1 when it was None, and, without a shared input
  space and with num_tasks None, has set num_tasks to the number of distinct values in the
  last column of X_train; it changes no other field, and every later call of model leaves
  the object as it is.
\<close>

theorem MultiTaskGP_fills_configuration:
  "(MultiTaskGP_init ExactGP_init LCMKernel input_dim data_kernel None shared_input_space
        num_tasks rank mean_fn data_kernel_prior mean_fn_prior noise_prior task_kernel_prior
        output_scale kw' = Inr m \<longrightarrow>
      mt_num_latents m = num_tasks \<and> num_tasks \<noteq> None) \<and>
   (snd (MultiTaskGP_model J eng self X y kw) \<noteq> None \<longrightarrow>
      (mt_rank self = None \<longrightarrow>
         (\<exists>t. mt_num_tasks (fst (MultiTaskGP_model J eng self X y kw)) = Some t \<and>
              mt_rank (fst (MultiTaskGP_model J eng self X y kw)) = Some (t - 1))) \<and>
      (mt_rank self \<noteq> None \<longrightarrow>
         mt_rank (fst (MultiTaskGP_model J eng self X y kw)) = mt_rank self) \<and>
      (\<not> mt_shared_input self \<and> mt_num_tasks self = None \<longrightarrow>
         (\<exists>X_train col. mt_X_train self = Some X_train \<and> last_column X_train = Some col \<and>
            mt_num_tasks (fst (MultiTaskGP_model J eng self X y kw)) =
              Some (int (card (set col))))) \<and>
      (mt_shared_input self \<or> mt_num_tasks self \<noteq> None \<longrightarrow>
         mt_num_tasks (fst (MultiTaskGP_model J eng self X y kw)) = mt_num_tasks self) \<and>
      fst (MultiTaskGP_model J eng self X y kw) =
        self\<lparr>mt_num_tasks := mt_num_tasks (fst (MultiTaskGP_model J eng self X y kw)),
              mt_rank := mt_rank (fst (MultiTaskGP_model J eng self X y kw))\<rparr> \<and>
      (\<forall>J2 eng2 X2 y2 kw2.
         fst (MultiTaskGP_model J2 eng2 (fst (MultiTaskGP_model J eng self X y kw)) X2 y2 kw2) =
           fst (MultiTaskGP_model J eng self X y kw)))"
proof (intro conjI impI)
  assume "MultiTaskGP_init ExactGP_init LCMKernel input_dim data_kernel None shared_input_space
        num_tasks rank mean_fn data_kernel_prior mean_fn_prior noise_prior task_kernel_prior
        output_scale kw' = Inr m"
  then show "mt_num_latents m = num_tasks" "num_tasks \<noteq> None"
    by (auto simp: MultiTaskGP_init_def split: sum.splits if_splits)
next
  let ?m = "MultiTaskGP_model J eng self X y kw"
  assume ok: "snd ?m \<noteq> None"
  then obtain tr where m: "?m = (fst ?m, Some tr)"
    by (cases ?m) auto
  from m obtain self1 where c: "infer_num_tasks self = Some self1"
      "default_rank self1 = Some (fst ?m)"
    by (rule MultiTaskGP_model_SomeE)
  note keep = model_keeps_fields [OF c]
  note i = infer_num_tasks_Some [OF c(1)]
  note r = default_rank_Some [OF c(2)]
  have rk: "mt_rank self1 = mt_rank self"
    by (subst i(1)) simp
  show rec: "fst ?m = self\<lparr>mt_num_tasks := mt_num_tasks (fst ?m), mt_rank := mt_rank (fst ?m)\<rparr>"
    by (rule keep(11))
  show rank_kept: "mt_rank (fst ?m) = mt_rank self" if "mt_rank self \<noteq> None"
    using r(2) that rk by simp
  show rank_set: "\<exists>t. mt_num_tasks (fst ?m) = Some t \<and> mt_rank (fst ?m) = Some (t - 1)"
    if "mt_rank self = None"
    using r(3) that rk keep(10) by simp
  show tasks_kept: "mt_num_tasks (fst ?m) = mt_num_tasks self"
    if "mt_shared_input self \<or> mt_num_tasks self \<noteq> None"
    using i(2) [OF that] keep(10) by simp
  show tasks_set: "\<exists>X_train col. mt_X_train self = Some X_train \<and> last_column X_train = Some col \<and>
            mt_num_tasks (fst ?m) = Some (int (card (set col)))"
    if "\<not> mt_shared_input self \<and> mt_num_tasks self = None"
    using i(3) [OF that] keep(10)
    by (auto simp: num_unique_last_column_def card_set)
  have 1: "mt_rank (fst ?m) \<noteq> None"
    using rank_kept rank_set by (cases "mt_rank self") auto
  have 2: "mt_shared_input (fst ?m) \<or> mt_num_tasks (fst ?m) \<noteq> None"
    using tasks_kept tasks_set keep(1) by (cases "mt_shared_input self"; cases "mt_num_tasks self") auto
  show "\<forall>J2 eng2 X2 y2 kw2. fst (MultiTaskGP_model J2 eng2 (fst ?m) X2 y2 kw2) = fst ?m"
    using model_configured_fixed [OF 1 2] by blast
qed

theorem MultiTaskGP_fills_configuration_witness:
  "MultiTaskGP_init ex_ExactGP_init ex_LCMKernel 1 (KernelName ''RBF'') None True (Some 2) None
     None None None None None False [] = Inr ex_mt \<and>
   mt_num_latents ex_mt = Some 2 \<and>
   snd (MultiTaskGP_model ideal_lib ex_engine ex_mt2 (Tensor [3, 2] [0, 0, 1, 1, 2, 0]) None [])
     \<noteq> None \<and>
   mt_rank ex_mt2 = None \<and> \<not> mt_shared_input ex_mt2 \<and> mt_num_tasks ex_mt2 = None \<and>
   mt_X_train ex_mt2 = Some (Tensor [3, 2] [0, 0, 1, 1, 2, 0]) \<and>
   last_column (Tensor [3, 2] [0, 0, 1, 1, 2, 0]) = Some [0, 1, 0] \<and>
   mt_num_tasks (fst (MultiTaskGP_model ideal_lib ex_engine ex_mt2
       (Tensor [3, 2] [0, 0, 1, 1, 2, 0]) None [])) = Some 2 \<and>
   mt_rank (fst (MultiTaskGP_model ideal_lib ex_engine ex_mt2
       (Tensor [3, 2] [0, 0, 1, 1, 2, 0]) None [])) = Some 1 \<and>
   fst (MultiTaskGP_model ideal_lib ex_engine
         (fst (MultiTaskGP_model ideal_lib ex_engine ex_mt2
            (Tensor [3, 2] [0, 0, 1, 1, 2, 0]) None []))
         (Tensor [1, 2] [5, 7]) None []) =
     fst (MultiTaskGP_model ideal_lib ex_engine ex_mt2 (Tensor [3, 2] [0, 0, 1, 1, 2, 0]) None [])"
proof -
  let ?X = "Tensor [3, 2] [0, 0, 1, 1, 2, 0]"
  let ?m = "MultiTaskGP_model ideal_lib ex_engine ex_mt2 ?X None []"
  have f: "mt_rank ex_mt2 = None" "\<not> mt_shared_input ex_mt2" "mt_num_tasks ex_mt2 = None"
    "mt_X_train ex_mt2 = Some ?X"
    by (simp_all add: ex_mt2_def)
  from MultiTaskGP_fills_configuration [THEN conjunct1, rule_format, OF ex_mt_init]
  have a: "mt_num_latents ex_mt = Some 2"
    by simp
  note b = MultiTaskGP_fills_configuration [THEN conjunct2, rule_format, OF ex_mt2_model(2)]
  from b have "\<exists>t. mt_num_tasks (fst ?m) = Some t \<and> mt_rank (fst ?m) = Some (t - 1)"
    using f(1) by blast
  moreover from b have "\<exists>X_train col. mt_X_train ex_mt2 = Some X_train \<and>
      last_column X_train = Some col \<and> mt_num_tasks (fst ?m) = Some (int (card (set col)))"
    using f(2,3) by blast
  moreover have "int (card (set [0, 1, 0 :: real])) = 2"
    by (simp only: card_set) simp
  ultimately have c: "mt_num_tasks (fst ?m) = Some 2" "mt_rank (fst ?m) = Some 1"
    by (auto simp only: f(4) ex_mt2_column option.inject)
  from b have d: "fst (MultiTaskGP_model ideal_lib ex_engine (fst ?m) (Tensor [1, 2] [5, 7]) None [])
      = fst ?m"
    by blast
  from ex_mt_init a ex_mt2_model(2) f ex_mt2_column c d show ?thesis
    by (intro conjI)
qed


subsection \<open>Construction\<close>

text \<open>
  C3 (as amended). The failure handling of the two constructors is the validation in
  MultiTaskGP: it raises ValueError("Please specify num_tasks") when shared_input_space is
  true and num_tasks is None, and ValueError("Please specify num_latents") when
  shared_input_space is false and num_latents is None. In every other case constructing a
  DKL or a MultiTaskGP object raises only if the base-class initialiser or (for
  MultiTaskGP) the LCMKernel constructor raises.
\<close>

theorem constructors_raise_only_for_missing_sizes:
  "(isl (DKL_init J ExactGP_init_dkl input_dim z_dim kernel_name kernel_prior mean_fn'
           mean_fn_prior' bnn_fn bnn_fn_prior latent_prior) \<longleftrightarrow>
      isl (ExactGP_init_dkl input_dim kernel_name kernel_prior)) \<and>
   (isl (MultiTaskGP_init ExactGP_init LCMKernel input_dim' data_kernel num_latents
           shared_input_space num_tasks rank mean_fn data_kernel_prior mean_fn_prior noise_prior
           task_kernel_prior output_scale kw) \<longleftrightarrow>
      isl (ExactGP_init input_dim' None mean_fn None mean_fn_prior noise_prior) \<or>
      shared_input_space \<and> num_tasks = None \<or>
      \<not> shared_input_space \<and> num_latents = None \<or>
      isl (LCMKernel data_kernel shared_input_space num_tasks kw)) \<and>
   (\<not> isl (ExactGP_init input_dim' None mean_fn None mean_fn_prior noise_prior) \<and>
    shared_input_space \<and> num_tasks = None \<longrightarrow>
      MultiTaskGP_init ExactGP_init LCMKernel input_dim' data_kernel num_latents
        shared_input_space num_tasks rank mean_fn data_kernel_prior mean_fn_prior noise_prior
        task_kernel_prior output_scale kw = Inl (ValueError ''Please specify num_tasks'')) \<and>
   (\<not> isl (ExactGP_init input_dim' None mean_fn None mean_fn_prior noise_prior) \<and>
    \<not> shared_input_space \<and> num_latents = None \<longrightarrow>
      MultiTaskGP_init ExactGP_init LCMKernel input_dim' data_kernel num_latents
        shared_input_space num_tasks rank mean_fn data_kernel_prior mean_fn_prior noise_prior
        task_kernel_prior output_scale kw = Inl (ValueError ''Please specify num_latents''))"
proof (intro conjI)
  show "isl (DKL_init J ExactGP_init_dkl input_dim z_dim kernel_name kernel_prior mean_fn'
           mean_fn_prior' bnn_fn bnn_fn_prior latent_prior) \<longleftrightarrow>
      isl (ExactGP_init_dkl input_dim kernel_name kernel_prior)"
    by (simp add: DKL_init_def split: sum.splits)
  show "isl (MultiTaskGP_init ExactGP_init LCMKernel input_dim' data_kernel num_latents
           shared_input_space num_tasks rank mean_fn data_kernel_prior mean_fn_prior noise_prior
           task_kernel_prior output_scale kw) \<longleftrightarrow>
      isl (ExactGP_init input_dim' None mean_fn None mean_fn_prior noise_prior) \<or>
      shared_input_space \<and> num_tasks = None \<or>
      \<not> shared_input_space \<and> num_latents = None \<or>
      isl (LCMKernel data_kernel shared_input_space num_tasks kw)"
    by (simp add: MultiTaskGP_init_def split: sum.splits)
  show "\<not> isl (ExactGP_init input_dim' None mean_fn None mean_fn_prior noise_prior) \<and>
    shared_input_space \<and> num_tasks = None \<longrightarrow>
      MultiTaskGP_init ExactGP_init LCMKernel input_dim' data_kernel num_latents
        shared_input_space num_tasks rank mean_fn data_kernel_prior mean_fn_prior noise_prior
        task_kernel_prior output_scale kw = Inl (ValueError ''Please specify num_tasks'')"
    by (simp add: MultiTaskGP_init_def split: sum.splits)
  show "\<not> isl (ExactGP_init input_dim' None mean_fn None mean_fn_prior noise_prior) \<and>
    \<not> shared_input_space \<and> num_latents = None \<longrightarrow>
      MultiTaskGP_init ExactGP_init LCMKernel input_dim' data_kernel num_latents
        shared_input_space num_tasks rank mean_fn data_kernel_prior mean_fn_prior noise_prior
        task_kernel_prior output_scale kw = Inl (ValueError ''Please specify num_latents'')"
    by (simp add: MultiTaskGP_init_def split: sum.splits)
qed

theorem construction_raises_counterexample:
  "MultiTaskGP_init ex_ExactGP_init ex_LCMKernel 1 (KernelName ''RBF'') None True None None
     None None None None None False [] = Inl (ValueError ''Please specify num_tasks'')"
  by (simp add: MultiTaskGP_init_def ex_ExactGP_init_def)

theorem constructors_raise_only_for_missing_sizes_witness:
  "\<not> isl (ex_ExactGP_init 1 None None None None None) \<and>
   MultiTaskGP_init ex_ExactGP_init ex_LCMKernel 1 (KernelName ''RBF'') None True None None
     None None None None None False [] = Inl (ValueError ''Please specify num_tasks'') \<and>
   MultiTaskGP_init ex_ExactGP_init ex_LCMKernel 1 (KernelName ''RBF'') None False (Some 2) None
     None None None None None False [] = Inl (ValueError ''Please specify num_latents'') \<and>
   \<not> isl (MultiTaskGP_init ex_ExactGP_init ex_LCMKernel 1 (KernelName ''RBF'') None True (Some 2)
     None None None None None None False []) \<and>
   \<not> isl (DKL_init ideal_lib ex_ExactGP_init_dkl 1 2 ''RBF'' None None None None None None)"
proof -
  have b: "\<not> isl (ex_ExactGP_init 1 None None None None None)"
    by (simp add: ex_ExactGP_init_def)
  have l: "\<not> isl (ex_LCMKernel (KernelName ''RBF'') True (Some 2) [])"
    by (simp add: ex_LCMKernel_def)
  have d: "\<not> isl (ex_ExactGP_init_dkl 1 ''RBF'' None)"
    by (simp add: ex_ExactGP_init_dkl_def)
  note t = constructors_raise_only_for_missing_sizes
  have 1: "MultiTaskGP_init ex_ExactGP_init ex_LCMKernel 1 (KernelName ''RBF'') None True None
     None None None None None None False [] = Inl (ValueError ''Please specify num_tasks'')"
    by (rule t [THEN conjunct2, THEN conjunct2, THEN conjunct1, rule_format]) (simp add: b)
  have 2: "MultiTaskGP_init ex_ExactGP_init ex_LCMKernel 1 (KernelName ''RBF'') None False
     (Some 2) None None None None None None False [] = Inl (ValueError ''Please specify num_latents'')"
    by (rule t [THEN conjunct2, THEN conjunct2, THEN conjunct2, rule_format]) (simp add: b)
  have "isl (MultiTaskGP_init ex_ExactGP_init ex_LCMKernel 1 (KernelName ''RBF'') None True
     (Some 2) None None None None None None False []) \<longleftrightarrow>
     isl (ex_ExactGP_init 1 None None None None None) \<or>
     True \<and> Some (2 :: int) = None \<or> \<not> True \<and> (None :: int option) = None \<or>
     isl (ex_LCMKernel (KernelName ''RBF'') True (Some 2) [])"
    by (rule t [THEN conjunct2, THEN conjunct1])
  with b l have 3: "\<not> isl (MultiTaskGP_init ex_ExactGP_init ex_LCMKernel 1 (KernelName ''RBF'')
     None True (Some 2) None None None None None None False [])"
    by simp
  have "isl (DKL_init ideal_lib ex_ExactGP_init_dkl 1 2 ''RBF'' None None None None None None)
     \<longleftrightarrow> isl (ex_ExactGP_init_dkl 1 ''RBF'' None)"
    by (rule t [THEN conjunct1])
  with d have 4: "\<not> isl (DKL_init ideal_lib ex_ExactGP_init_dkl 1 2 ''RBF'' None None None None
      None None)"
    by simp
  from b 1 2 3 4 show ?thesis
    by (intro conjI)
qed


subsection \<open>Dictionaries returned by the default priors\<close>

text \<open>
  C7 (as amended). For non-negative input_dim and zdim, the default BNN prior returns
  exactly the keys w1, b1, w2, b2, w3, b3 with shapes (input_dim, 64), (64,), (64, 32),
  (32,), (32, zdim), (zdim,). For a positive num_latents and non-negative num_tasks and
  rank, MultiTaskGP._sample_task_kernel_params returns exactly the keys W and v with shapes
  (num_latents, num_tasks, rank) and (num_latents, num_tasks). Not every value of a prior
  dictionary is a tensor: MultiTaskGP._sample_kernel_params returns exactly the keys
  k_length, k_scale and period, where k_length and k_scale are tensors and period is None
  exactly when the data kernel is not 'Periodic'.
\<close>

theorem prior_dictionaries:
  "(0 \<le> input_dim \<and> 0 \<le> zdim \<longrightarrow>
      (\<exists>p tr. bnn_prior input_dim zdim eng = Some (p, tr) \<and>
         dom p = {''w1'', ''b1'', ''w2'', ''b2'', ''w3'', ''b3''} \<and>
         map_option shape (p ''w1'') = Some [nat input_dim, 64] \<and>
         map_option shape (p ''b1'') = Some [64] \<and>
         map_option shape (p ''w2'') = Some [64, 32] \<and>
         map_option shape (p ''b2'') = Some [32] \<and>
         map_option shape (p ''w3'') = Some [32, nat zdim] \<and>
         map_option shape (p ''b3'') = Some [nat zdim])) \<and>
   (mt_num_latents self = Some l \<and> mt_num_tasks self = Some t \<and> mt_rank self = Some r \<and>
    0 < l \<and> 0 \<le> t \<and> 0 \<le> r \<longrightarrow>
      (\<exists>p tr W v. sample_task_kernel_params eng self = Some (p, tr) \<and>
         dom p = {''W'', ''v''} \<and> p ''W'' = Some (Some W) \<and> p ''v'' = Some (Some v) \<and>
         shape W = [nat l, nat t, nat r] \<and> shape v = [nat l, nat t])) \<and>
   (sample_kernel_params eng self' = Some (p', tr') \<longrightarrow>
      dom p' = {''k_length'', ''k_scale'', ''period''} \<and>
      (\<exists>a. p' ''k_length'' = Some (Some a)) \<and> (\<exists>b. p' ''k_scale'' = Some (Some b)) \<and>
      (p' ''period'' = Some None \<longleftrightarrow> mt_data_kernel_name self' \<noteq> Some ''Periodic''))"
proof (intro conjI impI)
  assume "0 \<le> input_dim \<and> 0 \<le> zdim"
  then show "\<exists>p tr. bnn_prior input_dim zdim eng = Some (p, tr) \<and>
         dom p = {''w1'', ''b1'', ''w2'', ''b2'', ''w3'', ''b3''} \<and>
         map_option shape (p ''w1'') = Some [nat input_dim, 64] \<and>
         map_option shape (p ''b1'') = Some [64] \<and>
         map_option shape (p ''w2'') = Some [64, 32] \<and>
         map_option shape (p ''b2'') = Some [32] \<and>
         map_option shape (p ''w3'') = Some [32, nat zdim] \<and>
         map_option shape (p ''b3'') = Some [nat zdim]"
    using bnn_prior_shapes by blast
next
  assume "mt_num_latents self = Some l \<and> mt_num_tasks self = Some t \<and> mt_rank self = Some r \<and>
    0 < l \<and> 0 \<le> t \<and> 0 \<le> r"
  then show "\<exists>p tr W v. sample_task_kernel_params eng self = Some (p, tr) \<and>
         dom p = {''W'', ''v''} \<and> p ''W'' = Some (Some W) \<and> p ''v'' = Some (Some v) \<and>
         shape W = [nat l, nat t, nat r] \<and> shape v = [nat l, nat t]"
    using task_kernel_shapes by blast
next
  assume a: "sample_kernel_params eng self' = Some (p', tr')"
  then obtain a b c where p: "p' = [''k_length'' \<mapsto> Some a, ''k_scale'' \<mapsto> Some b, ''period'' \<mapsto> c]"
    and c: "c \<noteq> None \<longleftrightarrow> mt_data_kernel_name self' = Some ''Periodic''"
    by (rule sample_kernel_params_SomeE)
  show "dom p' = {''k_length'', ''k_scale'', ''period''}"
    by (auto simp: p)
  show "\<exists>a. p' ''k_length'' = Some (Some a)" "\<exists>b. p' ''k_scale'' = Some (Some b)"
    by (simp_all add: p)
  show "p' ''period'' = Some None \<longleftrightarrow> mt_data_kernel_name self' \<noteq> Some ''Periodic''"
    using c by (cases c) (simp_all add: p)
qed

theorem period_is_none_counterexample:
  "sample_kernel_params ex_engine ex_mt_configured = Some (ex_mt_kparams, ex_mt_data_trace) \<and>
   ex_mt_kparams ''period'' = Some None"
  by (simp add: ex_mt_data) (simp add: ex_mt_kparams_def)

theorem prior_dictionaries_witness:
  "(0 :: int) \<le> 1 \<and> (0 :: int) \<le> 2 \<and>
   (\<exists>p tr. bnn_prior 1 2 ex_engine = Some (p, tr) \<and>
      dom p = {''w1'', ''b1'', ''w2'', ''b2'', ''w3'', ''b3''} \<and>
      map_option shape (p ''w1'') = Some [1, 64] \<and>
      map_option shape (p ''b1'') = Some [64] \<and>
      map_option shape (p ''w2'') = Some [64, 32] \<and>
      map_option shape (p ''b2'') = Some [32] \<and>
      map_option shape (p ''w3'') = Some [32, 2] \<and>
      map_option shape (p ''b3'') = Some [2]) \<and>
   mt_num_latents ex_mt_configured = Some 2 \<and> mt_num_tasks ex_mt_configured = Some 2 \<and>
   mt_rank ex_mt_configured = Some 1 \<and>
   (\<exists>p tr W v. sample_task_kernel_params ex_engine ex_mt_configured = Some (p, tr) \<and>
      dom p = {''W'', ''v''} \<and> p ''W'' = Some (Some W) \<and> p ''v'' = Some (Some v) \<and>
      shape W = [2, 2, 1] \<and> shape v = [2, 2]) \<and>
   sample_kernel_params ex_engine ex_mt_configured = Some (ex_mt_kparams, ex_mt_data_trace) \<and>
   dom ex_mt_kparams = {''k_length'', ''k_scale'', ''period''} \<and>
   mt_data_kernel_name ex_mt_configured \<noteq> Some ''Periodic'' \<and>
   ex_mt_kparams ''period'' = Some None"
proof -
  note t = prior_dictionaries
  have f: "mt_num_latents ex_mt_configured = Some 2" "mt_num_tasks ex_mt_configured = Some 2"
    "mt_rank ex_mt_configured = Some 1" "mt_data_kernel_name ex_mt_configured \<noteq> Some ''Periodic''"
    by (simp_all add: ex_mt_configured_def ex_mt_def)
  have "\<exists>p tr. bnn_prior 1 2 ex_engine = Some (p, tr) \<and>
      dom p = {''w1'', ''b1'', ''w2'', ''b2'', ''w3'', ''b3''} \<and>
      map_option shape (p ''w1'') = Some [nat 1, 64] \<and>
      map_option shape (p ''b1'') = Some [64] \<and>
      map_option shape (p ''w2'') = Some [64, 32] \<and>
      map_option shape (p ''b2'') = Some [32] \<and>
      map_option shape (p ''w3'') = Some [32, nat 2] \<and>
      map_option shape (p ''b3'') = Some [nat 2]"
    by (rule t [THEN conjunct1, rule_format]) simp
  then have 1: "\<exists>p tr. bnn_prior 1 2 ex_engine = Some (p, tr) \<and>
      dom p = {''w1'', ''b1'', ''w2'', ''b2'', ''w3'', ''b3''} \<and>
      map_option shape (p ''w1'') = Some [1, 64] \<and>
      map_option shape (p ''b1'') = Some [64] \<and>
      map_option shape (p ''w2'') = Some [64, 32] \<and>
      map_option shape (p ''b2'') = Some [32] \<and>
      map_option shape (p ''w3'') = Some [32, 2] \<and>
      map_option shape (p ''b3'') = Some [2]"
    by simp
  have "\<exists>p tr W v. sample_task_kernel_params ex_engine ex_mt_configured = Some (p, tr) \<and>
      dom p = {''W'', ''v''} \<and> p ''W'' = Some (Some W) \<and> p ''v'' = Some (Some v) \<and>
      shape W = [nat 2, nat 2, nat 1] \<and> shape v = [nat 2, nat 2]"
    by (rule t [THEN conjunct2, THEN conjunct1, rule_format]) (simp add: f)
  then have 2: "\<exists>p tr W v. sample_task_kernel_params ex_engine ex_mt_configured = Some (p, tr) \<and>
      dom p = {''W'', ''v''} \<and> p ''W'' = Some (Some W) \<and> p ''v'' = Some (Some v) \<and>
      shape W = [2, 2, 1] \<and> shape v = [2, 2]"
    by simp
  from t [THEN conjunct2, THEN conjunct2, rule_format, OF ex_mt_data] f(4)
  have 3: "dom ex_mt_kparams = {''k_length'', ''k_scale'', ''period''}"
    "ex_mt_kparams ''period'' = Some None"
    by blast+
  from 1 2 3 f ex_mt_data show ?thesis
    by (intro conjI) simp_all
qed

end
